theory Spec2Isabelle
  imports Complex_Main "HOL-Library.Sublist"
begin

section \<open>Python values and exceptions\<close>

text \<open>
  The service talks JSON with the GoPlus oracle and stores JSON in the database.
  A decoded JSON document is a value of \<open>json\<close>. An object is an association list;
  \<open>dict.get\<close> reads the first binding of a key. JSON numbers with a fraction or an
  exponent are outside this model: every number is an integer.
\<close>

datatype json =
    JNull
  | JBool bool
  | JInt int
  | JStr string
  | JList "json list"
  | JObj "(string \<times> json) list"

text \<open>
  The exceptions the code can meet. All of them are subclasses of Python's
  \<open>Exception\<close>; \<open>HTTPStatusError\<close> is the only one that the token loop catches by
  class. \<open>PyException\<close> is a plain \<open>Exception(msg)\<close>; of a formatted message only
  the literal prefix is kept. \<open>HttpError\<close> is ninja's error with its status code.
\<close>

datatype exn =
    HTTPStatusError nat
  | RequestError
  | JSONDecodeError
  | AttributeError
  | TypeError
  | ValueError
  | RedisError
  | DataError
  | PyException string
  | HttpError nat string

fun is_status_error :: "exn \<Rightarrow> bool" where
  "is_status_error (HTTPStatusError c) = True"
| "is_status_error _ = False"

text \<open>Sequencing of two steps of which the first may raise.\<close>

definition and_then :: "exn + 'a \<Rightarrow> ('a \<Rightarrow> exn + 'b) \<Rightarrow> exn + 'b" where
  "and_then m f = (case m of Inl e \<Rightarrow> Inl e | Inr v \<Rightarrow> f v)"

fun py_truthy :: "json \<Rightarrow> bool" where
  "py_truthy JNull = False"
| "py_truthy (JBool b) = b"
| "py_truthy (JInt n) = (n \<noteq> 0)"
| "py_truthy (JStr s) = (s \<noteq> [])"
| "py_truthy (JList xs) = (xs \<noteq> [])"
| "py_truthy (JObj kvs) = (kvs \<noteq> [])"

definition py_or :: "json \<Rightarrow> json \<Rightarrow> json" where
  "py_or a b = (if py_truthy a then a else b)"

fun is_dict :: "json \<Rightarrow> bool" where
  "is_dict (JObj kvs) = True"
| "is_dict _ = False"

text \<open>\<open>d.get(k, default)\<close>; on a value that is no dict the attribute lookup raises.\<close>

definition dict_get :: "(string \<times> json) list \<Rightarrow> string \<Rightarrow> json \<Rightarrow> json" where
  "dict_get kvs k d = (case map_of kvs k of None \<Rightarrow> d | Some v \<Rightarrow> v)"

fun py_get :: "json \<Rightarrow> string \<Rightarrow> json \<Rightarrow> exn + json" where
  "py_get (JObj kvs) k d = Inr (dict_get kvs k d)"
| "py_get _ k d = Inl AttributeError"

text \<open>\<open>s.lower()\<close> on the ASCII letters; other bytes are left as they are.\<close>

definition lower_char :: "char \<Rightarrow> char" where
  "lower_char c =
     (case map_of (zip ''ABCDEFGHIJKLMNOPQRSTUVWXYZ'' ''abcdefghijklmnopqrstuvwxyz'') c of
        None \<Rightarrow> c
      | Some l \<Rightarrow> l)"

definition py_lower :: "string \<Rightarrow> string" where
  "py_lower s = map lower_char s"

text \<open>\<open>sub in s\<close> on strings.\<close>

fun py_in :: "string \<Rightarrow> string \<Rightarrow> bool" where
  "py_in sub [] = (sub = [])"
| "py_in sub (c # cs) = (prefix sub (c # cs) \<or> py_in sub cs)"

subsection \<open>Decimal rendering and \<open>str()\<close>\<close>

definition digit_char :: "nat \<Rightarrow> char" where
  "digit_char n = ''0123456789'' ! n"

function show_nat :: "nat \<Rightarrow> string" where
  "show_nat n = (if n < 10 then [digit_char n] else show_nat (n div 10) @ [digit_char (n mod 10)])"
  by pat_completeness auto
termination
  by (relation "measure id") auto

declare show_nat.simps [simp del]

definition show_int :: "int \<Rightarrow> string" where
  "show_int i = (if i < 0 then CHR ''-'' # show_nat (nat (- i)) else show_nat (nat i))"

text \<open>
  \<open>str(v)\<close> of a decoded JSON value. For \<open>None\<close>, booleans, integers and strings it
  is Python's result. For a list or a dict Python prints the \<open>repr\<close> of the elements;
  here a string inside a container is printed between single quotes without escapes,
  which differs from Python only inside the brackets.
\<close>

fun py_str :: "json \<Rightarrow> string"
  and py_repr :: "json \<Rightarrow> string"
  and py_repr_list :: "json list \<Rightarrow> string"
  and py_repr_items :: "(string \<times> json) list \<Rightarrow> string" where
  "py_str (JStr s) = s"
| "py_str JNull = ''None''"
| "py_str (JBool b) = (if b then ''True'' else ''False'')"
| "py_str (JInt n) = show_int n"
| "py_str (JList xs) = ''['' @ py_repr_list xs @ '']''"
| "py_str (JObj kvs) = ''{'' @ py_repr_items kvs @ ''}''"
| "py_repr (JStr s) = [CHR 0x27] @ s @ [CHR 0x27]"
| "py_repr JNull = ''None''"
| "py_repr (JBool b) = (if b then ''True'' else ''False'')"
| "py_repr (JInt n) = show_int n"
| "py_repr (JList xs) = ''['' @ py_repr_list xs @ '']''"
| "py_repr (JObj kvs) = ''{'' @ py_repr_items kvs @ ''}''"
| "py_repr_list [] = []"
| "py_repr_list [x] = py_repr x"
| "py_repr_list (x # y # xs) = py_repr x @ '', '' @ py_repr_list (y # xs)"
| "py_repr_items [] = []"
| "py_repr_items [(k, v)] = [CHR 0x27] @ k @ [CHR 0x27] @ '': '' @ py_repr v"
| "py_repr_items ((k, v) # kv # kvs) =
     [CHR 0x27] @ k @ [CHR 0x27] @ '': '' @ py_repr v @ '', '' @ py_repr_items (kv # kvs)"

text \<open>\<open>str(flag) in {"1", "true", "True"}\<close>, the test of both sub-checks.\<close>

definition flag_is_true :: "json \<Rightarrow> bool" where
  "flag_is_true v = (py_str v \<in> {''1'', ''true'', ''True''})"

definition flag_is_false :: "json \<Rightarrow> bool" where
  "flag_is_false v = (py_str v \<in> {''0'', ''false'', ''False''})"

section \<open>SecurityReport and the aggregation of run_security_check\<close>

record SecurityReport =
  is_safe :: bool
  safety_score :: int
  warnings :: "string list"

text \<open>Lines 292 to 300 of security\_service.py.\<close>

definition aggregate :: "bool \<Rightarrow> bool \<Rightarrow> string list \<Rightarrow> SecurityReport" where
  "aggregate is_honeypot is_malicious_creator warns =
     (let safe = (\<not> is_honeypot \<and> \<not> is_malicious_creator);
          score = 100 - (int (length warns) * 10)
                      - (if is_honeypot then 80 else 0)
                      - (if is_malicious_creator then 50 else 0)
      in \<lparr>is_safe = safe, safety_score = max 0 score, warnings = warns\<rparr>)"

section \<open>The world outside the service: oracle, cache, clock\<close>

text \<open>
  An HTTP request as the code issues it: \<open>Post url json_payload\<close> and
  \<open>Get url params headers\<close>. The outcome of a request covers the three statements
  that follow each other in the code: the call (which raises on a transport failure),
  \<open>raise_for_status()\<close> and \<open>response.json()\<close>.
\<close>

datatype request =
    Post string "(string \<times> string) list"
  | Get string "(string \<times> string) list" "(string \<times> string) list"

datatype http_outcome =
    TransportFailure
  | BadStatus nat
  | NotJson
  | Body json

text \<open>
  The world holds the clock (constant during one call), the Redis store with the expiry
  time of each key, the oracle's answer to each request, and the requests sent so far.
  \<open>int_of_str\<close> is Python's \<open>int()\<close> on a string, a parameter of the model.
\<close>

record world =
  clock :: int
  redis_up :: bool
  redis :: "string \<Rightarrow> (string \<times> int) option"
  net :: "request \<Rightarrow> http_outcome"
  sent :: "request list"
  int_of_str :: "string \<Rightarrow> int option"

definition http :: "world \<Rightarrow> request \<Rightarrow> (exn + json) \<times> world" where
  "http w r =
     (let w' = w\<lparr>sent := sent w @ [r]\<rparr> in
      case net w r of
        TransportFailure \<Rightarrow> (Inl RequestError, w')
      | BadStatus c \<Rightarrow> (Inl (HTTPStatusError c), w')
      | NotJson \<Rightarrow> (Inl JSONDecodeError, w')
      | Body j \<Rightarrow> (Inr j, w'))"

text \<open>\<open>redis_client.get(key)\<close> with \<open>decode_responses=True\<close>: a string or \<open>None\<close>.\<close>

definition redis_get :: "world \<Rightarrow> string \<Rightarrow> exn + string option" where
  "redis_get w k =
     (if redis_up w then
        Inr (case redis w k of
               None \<Rightarrow> None
             | Some (v, expiry) \<Rightarrow> if clock w < expiry then Some v else None)
      else Inl RedisError)"

text \<open>redis-py sends a \<open>str\<close> as it is and an \<open>int\<close> in decimal, and refuses the rest.\<close>

fun redis_encode :: "json \<Rightarrow> exn + string" where
  "redis_encode (JStr s) = Inr s"
| "redis_encode (JInt n) = Inr (show_int n)"
| "redis_encode _ = Inl DataError"

definition redis_set :: "world \<Rightarrow> string \<Rightarrow> json \<Rightarrow> int \<Rightarrow> exn + world" where
  "redis_set w k v ex =
     (if redis_up w then
        (case redis_encode v of
           Inl e \<Rightarrow> Inl e
         | Inr s \<Rightarrow> Inr (w\<lparr>redis := (redis w)(k \<mapsto> (s, clock w + ex))\<rparr>))
      else Inl RedisError)"

text \<open>\<open>int(v)\<close> of a decoded JSON value.\<close>

fun py_int :: "world \<Rightarrow> json \<Rightarrow> exn + int" where
  "py_int w (JInt n) = Inr n"
| "py_int w (JBool b) = Inr (if b then 1 else 0)"
| "py_int w (JStr s) = (case int_of_str w s of None \<Rightarrow> Inl ValueError | Some n \<Rightarrow> Inr n)"
| "py_int w _ = Inl TypeError"

section \<open>SecurityService.\_get\_access\_token\<close>

record SecurityService =
  api_key :: string
  api_secret :: string

definition GOPLUS_API_BASE :: string where
  "GOPLUS_API_BASE = ''https://api.gopluslabs.io/api/v1''"

definition token_cache_key :: string where
  "token_cache_key = ''goplus:access_token''"

definition auth_payloads :: "SecurityService \<Rightarrow> (string \<times> string) list list" where
  "auth_payloads svc =
     [[(''app_key'', api_key svc), (''app_secret'', api_secret svc)],
      [(''appKey'', api_key svc), (''appSecret'', api_secret svc)],
      [(''api_key'', api_key svc), (''api_secret'', api_secret svc)]]"

text \<open>\<open>code != 1\<close>: Python's \<open>True\<close> equals 1.\<close>

fun differs_from_one :: "json \<Rightarrow> bool" where
  "differs_from_one (JInt n) = (n \<noteq> 1)"
| "differs_from_one (JBool b) = (\<not> b)"
| "differs_from_one _ = True"

text \<open>
  What one attempt reads from a decoded response (lines 91 to 121): either the attempt
  is given up with \<open>last_error\<close> set, or an access token and the value of
  \<open>expires_in\<close> are found. A response that is no dict raises at the first \<open>.get\<close>.
\<close>

datatype attempt = Rejected exn | Granted json json

fun read_token_response :: "json \<Rightarrow> exn + attempt" where
  "read_token_response (JObj token_data) =
     (let code = dict_get token_data ''code'' JNull in
      if py_truthy code \<and> differs_from_one code then
        Inr (Rejected (PyException ''GoPlus API error: ''))
      else
        (let result = py_or (dict_get token_data ''result'' JNull) (dict_get token_data ''data'' JNull) in
         and_then
           (if is_dict result then
              and_then (py_get result ''access_token'' JNull) (\<lambda>a.
              and_then (py_get result ''token'' JNull) (\<lambda>b. Inr (py_or a b)))
            else
              Inr (py_or (dict_get token_data ''access_token'' JNull)
                         (dict_get token_data ''token'' JNull)))
           (\<lambda>access_token.
              if py_truthy access_token then
                (let expires_in = dict_get token_data ''expires_in'' (JInt 3600) in
                 and_then (if is_dict result then py_get result ''expires_in'' expires_in
                           else Inr expires_in)
                   (\<lambda>expires_in. Inr (Granted access_token expires_in)))
              else
                Inr (Rejected (PyException ''Could not extract access token from response: '')))))"
| "read_token_response _ = Inl AttributeError"

text \<open>
  The loop over the payload shapes (lines 79 to 131), with \<open>last_error\<close> as an
  argument. Only an \<open>HTTPStatusError\<close> is caught inside the loop; any other
  exception leaves it.
\<close>

fun try_payloads :: "world \<Rightarrow> exn option \<Rightarrow> (string \<times> string) list list \<Rightarrow> (exn + json) \<times> world" where
  "try_payloads w last_error [] =
     (Inl (case last_error of
             Some e \<Rightarrow> e
           | None \<Rightarrow> PyException ''All authentication attempts failed''), w)"
| "try_payloads w last_error (payload # rest) =
     (case http w (Post (GOPLUS_API_BASE @ ''/token'') payload) of
        (Inl e, w1) \<Rightarrow>
          if is_status_error e then try_payloads w1 (Some e) rest else (Inl e, w1)
      | (Inr token_data, w1) \<Rightarrow>
          (case read_token_response token_data of
             Inl e \<Rightarrow> (Inl e, w1)
           | Inr (Rejected e) \<Rightarrow> try_payloads w1 (Some e) rest
           | Inr (Granted access_token expires_in) \<Rightarrow>
               (case py_int w1 expires_in of
                  Inl e \<Rightarrow> (Inl e, w1)
                | Inr n \<Rightarrow>
                    (let cache_ttl = max 60 (n - 60) in
                     case redis_set w1 token_cache_key access_token cache_ttl of
                       Inl e \<Rightarrow> (Inl e, w1)
                     | Inr w2 \<Rightarrow> (Inr access_token, w2)))))"

text \<open>Lines 66 to 139: the part of the method after the cache miss.\<close>

definition fetch_access_token :: "SecurityService \<Rightarrow> world \<Rightarrow> (exn + json) \<times> world" where
  "fetch_access_token svc w =
     (if api_key svc = [] \<or> api_secret svc = [] then
        (Inl (PyException ''GoPlus API credentials not configured''), w)
      else
        (case try_payloads w None (auth_payloads svc) of
           (Inl e, w') \<Rightarrow>
             (Inl (if is_status_error e
                   then PyException ''Failed to get GoPlus access token: '' else e), w')
         | (Inr access_token, w') \<Rightarrow> (Inr access_token, w')))"

definition get_access_token :: "SecurityService \<Rightarrow> world \<Rightarrow> (exn + json) \<times> world" where
  "get_access_token svc w =
     (case redis_get w token_cache_key of
        Inl e \<Rightarrow> (Inl e, w)
      | Inr None \<Rightarrow> fetch_access_token svc w
      | Inr (Some cached_token) \<Rightarrow>
          if cached_token = [] then fetch_access_token svc w
          else (Inr (JStr cached_token), w))"

section \<open>SecurityService.run\_security\_check\<close>

text \<open>The headers of both checks: the bearer token is sent only when one is held.\<close>

definition auth_headers :: "json option \<Rightarrow> (string \<times> string) list" where
  "auth_headers access_token =
     (case access_token of
        None \<Rightarrow> []
      | Some t \<Rightarrow> if py_truthy t then [(''Authorization'', ''Bearer '' @ py_str t)] else [])"

text \<open>Lines 169 to 177: the token is asked for only when key and secret are set.\<close>

definition obtain_token :: "SecurityService \<Rightarrow> world \<Rightarrow> json option \<times> world" where
  "obtain_token svc w =
     (if api_key svc \<noteq> [] \<and> api_secret svc \<noteq> [] then
        (case get_access_token svc w of
           (Inl e, w') \<Rightarrow> (None, w')
         | (Inr access_token, w') \<Rightarrow> (Some access_token, w'))
      else (None, w))"

text \<open>Lines 201 to 204: the entry of the report that belongs to the address.\<close>

definition address_entry :: "string \<Rightarrow> json \<Rightarrow> exn + json" where
  "address_entry contract_address token_report =
     and_then (py_get token_report ''result'' (JObj [])) (\<lambda>r.
     and_then (if py_truthy r then Inr r
               else and_then (py_get token_report ''data'' (JObj []))
                      (\<lambda>d. py_get d ''result'' (JObj []))) (\<lambda>result.
     and_then (py_get (py_or result (JObj [])) (py_lower contract_address) JNull) (\<lambda>a.
       if py_truthy a then Inr a
       else py_get (py_or result (JObj [])) contract_address JNull)))"

text \<open>
  Lines 207 to 229: the honeypot flag and the warnings of the first check. Both
  \<open>.get\<close> calls come before the first \<open>append\<close>, so an exception leaves the
  flag and the warnings as they were.
\<close>

definition token_findings :: "json \<Rightarrow> exn + (bool \<times> string list)" where
  "token_findings result =
     (if py_truthy result then
        and_then (py_get result ''is_honeypot'' JNull) (\<lambda>honeypot_flag.
        and_then (py_get result ''is_open_source'' JNull) (\<lambda>open_source_flag.
          Inr (flag_is_true honeypot_flag,
               (if flag_is_true honeypot_flag then [''Honeypot detected by GoPlus.''] else []) @
               (if flag_is_false open_source_flag
                then [''Contract source code is not verified.''] else []))))
      else Inr (False, [''Could not retrieve a token security report from GoPlus.'']))"

text \<open>The body of the first \<open>try\<close> (lines 182 to 229).\<close>

definition token_security_try ::
  "string \<Rightarrow> string \<Rightarrow> json option \<Rightarrow> world \<Rightarrow> (exn + (bool \<times> string list)) \<times> world" where
  "token_security_try chain_id contract_address access_token w =
     (case http w (Get (GOPLUS_API_BASE @ ''/token_security/'' @ chain_id)
                       [(''contract_addresses'', contract_address)]
                       (auth_headers access_token)) of
        (Inl e, w') \<Rightarrow> (Inl e, w')
      | (Inr token_report, w') \<Rightarrow>
          (and_then (address_entry contract_address token_report) token_findings, w'))"

text \<open>The mocked deployer lookup (lines 141 to 148).\<close>

definition find_deployer_address :: "string \<Rightarrow> string \<Rightarrow> string option" where
  "find_deployer_address chain_id contract_address =
     Some ''0xc8b759860149542a98a3eb57c14aadf59d6d89b9''"

text \<open>Lines 260 to 274: the flag and the warnings of the second check.\<close>

definition address_findings :: "json \<Rightarrow> exn + (bool \<times> string list)" where
  "address_findings address_report =
     and_then (py_get address_report ''result'' (JObj [])) (\<lambda>r.
     and_then (if py_truthy r then Inr r
               else and_then (py_get address_report ''data'' (JObj []))
                      (\<lambda>d. py_get d ''result'' (JObj []))) (\<lambda>result.
       if py_truthy result then
         and_then (py_get result ''honeypot_related_address'' JNull) (\<lambda>honeypot_related.
           Inr (flag_is_true honeypot_related,
                if flag_is_true honeypot_related
                then [''Deployer address is related to honeypot activities.''] else []))
       else Inr (False, [])))"

text \<open>The body of the second \<open>try\<close> (lines 245 to 274).\<close>

definition address_security_try ::
  "string \<Rightarrow> string \<Rightarrow> json option \<Rightarrow> world \<Rightarrow> (exn + (bool \<times> string list)) \<times> world" where
  "address_security_try chain_id deployer_address access_token w =
     (case http w (Get (GOPLUS_API_BASE @ ''/address_security/'' @ deployer_address)
                       [(''chain_id'', chain_id)]
                       (auth_headers access_token)) of
        (Inl e, w') \<Rightarrow> (Inl e, w')
      | (Inr address_report, w') \<Rightarrow> (address_findings address_report, w'))"

text \<open>
  The method itself. Each \<open>try\<close> has the two handlers of the source, one for
  \<open>HTTPStatusError\<close> and one for \<open>Exception\<close>; both append the same warning.
\<close>

definition run_security_check ::
  "SecurityService \<Rightarrow> string \<Rightarrow> string \<Rightarrow> world \<Rightarrow> (exn + SecurityReport) \<times> world" where
  "run_security_check svc chain_id contract_address w0 =
     (let (access_token, w1) = obtain_token svc w0;
          (r1, w2) = token_security_try chain_id contract_address access_token w1;
          (is_honeypot, warnings1) =
            (case r1 of
               Inl e \<Rightarrow> if is_status_error e
                         then (False, [''Failed to perform token security check.''])
                         else (False, [''Failed to perform token security check.''])
             | Inr found \<Rightarrow> found);
          (r2, w3) =
            (case find_deployer_address chain_id contract_address of
               None \<Rightarrow> (Inr (False, []), w2)
             | Some deployer_address \<Rightarrow>
                 if deployer_address = [] then (Inr (False, []), w2)
                 else address_security_try chain_id deployer_address access_token w2);
          (is_malicious_creator, warnings2) =
            (case r2 of
               Inl e \<Rightarrow> if is_status_error e
                         then (False, [''Failed to perform deployer address security check.''])
                         else (False, [''Failed to perform deployer address security check.''])
             | Inr found \<Rightarrow> found)
      in (Inr (aggregate is_honeypot is_malicious_creator (warnings1 @ warnings2)), w3))"

section \<open>The planning endpoint (api\_v1/api.py, plan\_intent)\<close>

text \<open>
  Python's floats are not interpreted: \<open>'f\<close> is the type of floats and the
  operations the endpoint uses are the fields of \<open>float_ops\<close>. A literal of the
  source is \<open>f_lit\<close> of its text, \<open>f_of_int\<close> is \<open>float(n)\<close> and
  \<open>f_round x n\<close> is \<open>round(x, n)\<close>. Comparison is the order of \<open>'f\<close>, a
  linear order as that of floats without NaN.
\<close>

record 'f float_ops =
  f_lit :: "string \<Rightarrow> 'f"
  f_of_int :: "int \<Rightarrow> 'f"
  f_add :: "'f \<Rightarrow> 'f \<Rightarrow> 'f"
  f_mul :: "'f \<Rightarrow> 'f \<Rightarrow> 'f"
  f_div :: "'f \<Rightarrow> 'f \<Rightarrow> 'f"
  f_round :: "'f \<Rightarrow> nat \<Rightarrow> 'f"

text \<open>An entry of a whitelist; every entry of the source has the four keys.\<close>

record 'f candidate =
  address :: string
  mock_apy :: 'f
  mock_tvl :: int
  protocol :: string

definition INTENT_WALLET_ADDRESS :: string where
  "INTENT_WALLET_ADDRESS = ''0x718a09981d305c2293d0c85e9d957ad25cb2a1c7''"

definition CANDIDATE_FARMS :: "'f float_ops \<Rightarrow> 'f candidate list" where
  "CANDIDATE_FARMS ops =
     [\<lparr>address = ''0x1b227DF9c8D34CaB880774737FBf426E66Ba98Ed'',
       mock_apy = f_lit ops ''0.12'',
       mock_tvl = 500000,
       protocol = ''staking''\<rparr>]"

definition CANDIDATE_LENDING :: "'f float_ops \<Rightarrow> 'f candidate list" where
  "CANDIDATE_LENDING ops =
     [\<lparr>address = ''0xa23bDd28F9221F275897D8A26A8eb97A341cd257'',
       mock_apy = f_lit ops ''0.05'',
       mock_tvl = 2500000,
       protocol = ''lending''\<rparr>]"

text \<open>Rows of the database. A status is the string value of its \<open>TextChoices\<close>.\<close>

record Intent =
  user_wallet :: string
  chain_id :: int
  input_text :: string
  intent_json :: json
  status :: string

record 'f CandidateSchema =
  c_address :: string
  c_apy :: 'f
  c_tvl :: int
  c_safety_score :: int
  c_utility :: 'f
  c_warnings :: "string list"
  c_protocol :: string

text \<open>
  A step of a plan. In the source a step is a dict whose \<open>"type"\<close> is
  \<open>"approve"\<close>, \<open>"stake"\<close> or \<open>"lend"\<close>: \<open>Approve asset amount spender\<close>,
  \<open>Stake contract asset amount\<close>, \<open>Lend contract asset amount\<close>.
\<close>

datatype plan_step =
    Approve json json string
  | Stake string json json
  | Lend string json json

record plan_data =
  steps :: "plan_step list"
  chosen_protocol :: string
  intent_wallet :: string
  plan_chain_id :: int

record 'f Plan =
  plan_id :: string
  plan_intent_id :: string
  plan_json :: plan_data
  utility_scores :: "'f CandidateSchema list"
  chosen_contract_address :: string
  plan_status :: string

record 'f database =
  intents :: "string \<Rightarrow> Intent option"
  plans :: "'f Plan list"

record 'f PlanOutput =
  out_plan_id :: string
  candidates :: "'f CandidateSchema list"
  chosen :: "'f CandidateSchema"

text \<open>Line 160: the lower-cased intent type, the empty string when there is none.\<close>

definition intent_type_of :: "json \<Rightarrow> exn + string" where
  "intent_type_of ij =
     and_then (py_get (py_or ij (JObj [])) ''intent_type'' (JStr [])) (\<lambda>v.
       case v of JStr s \<Rightarrow> Inr (py_lower s) | _ \<Rightarrow> Inl AttributeError)"

text \<open>Lines 163 to 172.\<close>

definition candidates_to_check :: "'f float_ops \<Rightarrow> string \<Rightarrow> 'f candidate list" where
  "candidates_to_check ops intent_type =
     (if py_in ''lend'' intent_type \<or> py_in ''borrow'' intent_type then CANDIDATE_LENDING ops
      else if py_in ''stake'' intent_type \<or> py_in ''farm'' intent_type then CANDIDATE_FARMS ops
      else CANDIDATE_FARMS ops)"

text \<open>Lines 219 to 236: the utility of a safe candidate and its row of the result.\<close>

definition utility_of :: "'f float_ops \<Rightarrow> 'f \<Rightarrow> int \<Rightarrow> 'f" where
  "utility_of ops apy score =
     f_add ops (f_mul ops apy (f_lit ops ''0.5''))
               (f_mul ops (f_div ops (f_of_int ops score) (f_lit ops ''100.0'')) (f_lit ops ''0.5''))"

definition candidate_schema :: "'f float_ops \<Rightarrow> 'f candidate \<Rightarrow> SecurityReport \<Rightarrow> 'f CandidateSchema" where
  "candidate_schema ops candidate report =
     (let apy = mock_apy candidate;
          utility = utility_of ops apy (safety_score report)
      in \<lparr>c_address = address candidate,
          c_apy = apy,
          c_tvl = mock_tvl candidate,
          c_safety_score = safety_score report,
          c_utility = f_round ops utility 6,
          c_warnings = warnings report,
          c_protocol = protocol candidate\<rparr>)"

text \<open>
  The loop of lines 183 to 240. The security service is the argument \<open>check\<close>; it
  may raise, and the code also allows for a missing report. \<open>'w\<close> is the state of
  whatever the service talks to.
\<close>

fun check_candidates ::
  "'f float_ops \<Rightarrow> (string \<Rightarrow> string \<Rightarrow> 'w \<Rightarrow> (exn + SecurityReport option) \<times> 'w) \<Rightarrow> string
     \<Rightarrow> 'f candidate list \<Rightarrow> 'f CandidateSchema list \<Rightarrow> 'w \<Rightarrow> 'f CandidateSchema list \<times> 'w" where
  "check_candidates ops check chain_id_str [] candidate_results w = (candidate_results, w)"
| "check_candidates ops check chain_id_str (candidate # rest) candidate_results w =
     (case check chain_id_str (address candidate) w of
        (Inl exc, w') \<Rightarrow> check_candidates ops check chain_id_str rest candidate_results w'
      | (Inr None, w') \<Rightarrow> check_candidates ops check chain_id_str rest candidate_results w'
      | (Inr (Some report), w') \<Rightarrow>
          if is_safe report then
            check_candidates ops check chain_id_str rest
              (candidate_results @ [candidate_schema ops candidate report]) w'
          else check_candidates ops check chain_id_str rest candidate_results w')"

text \<open>
  \<open>max(items, key=f)\<close>: the item held is replaced only by one with a strictly larger
  key; on an empty list Python raises \<open>ValueError\<close>.
\<close>

fun max_loop :: "('a \<Rightarrow> 'k::linorder) \<Rightarrow> 'a \<Rightarrow> 'a list \<Rightarrow> 'a" where
  "max_loop key best [] = best"
| "max_loop key best (x # xs) = max_loop key (if key best < key x then x else best) xs"

definition py_max :: "('a \<Rightarrow> 'k::linorder) \<Rightarrow> 'a list \<Rightarrow> exn + 'a" where
  "py_max key xs = (case xs of [] \<Rightarrow> Inl ValueError | x # rest \<Rightarrow> Inr (max_loop key x rest))"

text \<open>Lines 281 to 313.\<close>

definition build_plan :: "'f CandidateSchema \<Rightarrow> string \<Rightarrow> json \<Rightarrow> json \<Rightarrow> int \<Rightarrow> plan_data" where
  "build_plan chosen_candidate intent_type asset amount chain =
     (let action_step =
            (if c_protocol chosen_candidate = ''lending'' \<or> py_in ''lend'' intent_type
             then Lend (c_address chosen_candidate) asset amount
             else Stake (c_address chosen_candidate) asset amount)
      in \<lparr>steps = [Approve asset amount (c_address chosen_candidate), action_step],
          chosen_protocol = c_protocol chosen_candidate,
          intent_wallet = INTENT_WALLET_ADDRESS,
          plan_chain_id = chain\<rparr>)"

definition NO_SAFE_CANDIDATES :: string where
  "NO_SAFE_CANDIDATES =
     ''Could not generate a plan. No safe and valid candidates were found after GoPlus security check.''"

text \<open>
  Steps 2 to 7 of the endpoint, for the list of candidates chosen in step 1. The
  identifier of the new plan (a random UUID in the source) is the argument
  \<open>new_id\<close>. The database is a store that does not fail.
\<close>

definition plan_for ::
  "'f::linorder float_ops \<Rightarrow> (string \<Rightarrow> string \<Rightarrow> 'w \<Rightarrow> (exn + SecurityReport option) \<times> 'w)
     \<Rightarrow> string \<Rightarrow> string \<Rightarrow> Intent \<Rightarrow> string \<Rightarrow> 'f candidate list
     \<Rightarrow> 'f database \<Rightarrow> 'w \<Rightarrow> (exn + 'f PlanOutput) \<times> 'f database \<times> 'w" where
  "plan_for ops check new_id intent_id intent intent_type cands db w =
     (let (candidate_results, w') =
            check_candidates ops check (show_int (chain_id intent)) cands [] w
      in if candidate_results = [] then (Inl (HttpError 500 NO_SAFE_CANDIDATES), db, w')
         else
           (case py_max c_utility candidate_results of
              Inl e \<Rightarrow> (Inl e, db, w')
            | Inr chosen_candidate \<Rightarrow>
                (case py_get (intent_json intent) ''asset'' JNull of
                   Inl e \<Rightarrow> (Inl e, db, w')
                 | Inr asset \<Rightarrow>
                     (case py_get (intent_json intent) ''amount'' JNull of
                        Inl e \<Rightarrow> (Inl e, db, w')
                      | Inr amount \<Rightarrow>
                          (let plan_data = build_plan chosen_candidate intent_type asset amount
                                             (chain_id intent);
                               new_plan = \<lparr>plan_id = new_id,
                                           plan_intent_id = intent_id,
                                           plan_json = plan_data,
                                           utility_scores = candidate_results,
                                           chosen_contract_address = c_address chosen_candidate,
                                           plan_status = ''ready''\<rparr>;
                               db' = db\<lparr>plans := plans db @ [new_plan],
                                        intents := (intents db)
                                          (intent_id \<mapsto> intent\<lparr>status := ''planned''\<rparr>)\<rparr>
                           in (Inr \<lparr>out_plan_id = new_id,
                                    candidates = candidate_results,
                                    chosen = chosen_candidate\<rparr>, db', w'))))))"

definition plan_intent ::
  "'f::linorder float_ops \<Rightarrow> (string \<Rightarrow> string \<Rightarrow> 'w \<Rightarrow> (exn + SecurityReport option) \<times> 'w)
     \<Rightarrow> string \<Rightarrow> string \<Rightarrow> 'f database \<Rightarrow> 'w \<Rightarrow> (exn + 'f PlanOutput) \<times> 'f database \<times> 'w" where
  "plan_intent ops check new_id intent_id db w =
     (case intents db intent_id of
        None \<Rightarrow> (Inl (HttpError 404 (''Intent with ID '' @ intent_id @ '' not found.'')), db, w)
      | Some intent \<Rightarrow>
          (case intent_type_of (intent_json intent) of
             Inl e \<Rightarrow> (Inl e, db, w)
           | Inr intent_type \<Rightarrow>
               plan_for ops check new_id intent_id intent intent_type
                 (candidates_to_check ops intent_type) db w))"

text \<open>The singleton \<open>security_service\<close> as the endpoint calls it.\<close>

definition goplus_check ::
  "SecurityService \<Rightarrow> string \<Rightarrow> string \<Rightarrow> world \<Rightarrow> (exn + SecurityReport option) \<times> world" where
  "goplus_check svc chain_id_str addr w =
     (case run_security_check svc chain_id_str addr w of
        (Inl e, w') \<Rightarrow> (Inl e, w')
      | (Inr report, w') \<Rightarrow> (Inr (Some report), w'))"

section \<open>Predicates and sample inputs of the properties\<close>

text \<open>
  What the token loop makes of the answer to one payload shape. A shape is rejected
  when the loop goes on to the next one: the answer has an error status, or it is a
  dict with an error code or without an access token. A shape grants a token when the
  answer is a dict from which the loop reads a token.
\<close>

definition shape_rejected :: "world \<Rightarrow> (string \<times> string) list \<Rightarrow> bool" where
  "shape_rejected w payload =
     (case net w (Post (GOPLUS_API_BASE @ ''/token'') payload) of
        BadStatus c \<Rightarrow> True
      | Body token_data \<Rightarrow>
          (case read_token_response token_data of Inr (Rejected e) \<Rightarrow> True | _ \<Rightarrow> False)
      | _ \<Rightarrow> False)"

definition shape_grants :: "world \<Rightarrow> (string \<times> string) list \<Rightarrow> json \<Rightarrow> json \<Rightarrow> bool" where
  "shape_grants w payload access_token expires_in =
     (case net w (Post (GOPLUS_API_BASE @ ''/token'') payload) of
        Body token_data \<Rightarrow> read_token_response token_data = Inr (Granted access_token expires_in)
      | _ \<Rightarrow> False)"

text \<open>Sample services and worlds on which the properties are evaluated.\<close>

definition demo_service :: SecurityService where
  "demo_service = \<lparr>api_key = ''key'', api_secret = ''secret''\<rparr>"

definition blank_service :: SecurityService where
  "blank_service = \<lparr>api_key = [], api_secret = []\<rparr>"

definition quiet_world :: world where
  "quiet_world = \<lparr>clock = 0, redis_up = True, redis = (\<lambda>k. None),
                   net = (\<lambda>r. TransportFailure), sent = [], int_of_str = (\<lambda>s. None)\<rparr>"





definition report_world :: "json \<Rightarrow> world" where
  "report_world entry =
     quiet_world\<lparr>net := (\<lambda>r. Body (JObj [(''result'', JObj [(''0xab'', entry)])]))\<rparr>"

text \<open>
  Every candidate of a list is filtered out: its check raises, returns no report, or
  returns a report that is not safe. The state of the service is threaded as in the loop.
\<close>

fun all_filtered ::
  "(string \<Rightarrow> string \<Rightarrow> 'w \<Rightarrow> (exn + SecurityReport option) \<times> 'w) \<Rightarrow> string
     \<Rightarrow> 'f candidate list \<Rightarrow> 'w \<Rightarrow> bool" where
  "all_filtered check chain_id_str [] w = True"
| "all_filtered check chain_id_str (candidate # rest) w =
     (case check chain_id_str (address candidate) w of
        (Inr (Some report), w') \<Rightarrow> \<not> is_safe report \<and> all_filtered check chain_id_str rest w'
      | (other, w') \<Rightarrow> all_filtered check chain_id_str rest w')"

text \<open>
  A sample interpretation of the floats in exact rationals. The sample utilities have
  fewer than six decimals, so rounding leaves them as they are.
\<close>

definition exact_ops :: "rat float_ops" where
  "exact_ops =
     \<lparr>f_lit = (\<lambda>s. if s = ''0.5'' then 1 / 2 else if s = ''100.0'' then 100
                    else if s = ''0.12'' then 3 / 25 else if s = ''0.05'' then 1 / 20 else 0),
      f_of_int = of_int,
      f_add = (+),
      f_mul = (*),
      f_div = (/),
      f_round = (\<lambda>x n. x)\<rparr>"

definition three_candidates :: "rat candidate list" where
  "three_candidates =
     [\<lparr>address = ''0xA'', mock_apy = 3 / 25, mock_tvl = 1, protocol = ''staking''\<rparr>,
      \<lparr>address = ''0xB'', mock_apy = 3 / 25, mock_tvl = 2, protocol = ''staking''\<rparr>,
      \<lparr>address = ''0xC'', mock_apy = 1 / 20, mock_tvl = 3, protocol = ''staking''\<rparr>]"

definition scored_check :: "string \<Rightarrow> string \<Rightarrow> unit \<Rightarrow> (exn + SecurityReport option) \<times> unit" where
  "scored_check chain_id_str addr w =
     (Inr (Some \<lparr>is_safe = True,
                 safety_score = (if addr = ''0xC'' then 80 else 100),
                 warnings = []\<rparr>), w)"

definition honeypot_world :: world where
  "honeypot_world =
     quiet_world\<lparr>net := (\<lambda>r. Body (JObj [(''result'',
        JObj [(''0x1b227df9c8d34cab880774737fbf426e66ba98ed'',
               JObj [(''is_honeypot'', JStr ''1'')])])]))\<rparr>"

definition stake_intent :: Intent where
  "stake_intent =
     \<lparr>user_wallet = ''0xUser'', chain_id = 1043, input_text = ''stake 1000 bdag'',
      intent_json = JObj [(''intent_type'', JStr ''stake_and_compound''), (''asset'', JStr ''BDAG''),
                          (''amount'', JInt 1000), (''amount_unit'', JStr ''token''),
                          (''target'', JStr ''highest_risk_adjusted_apr'')],
      status = ''parsed''\<rparr>"

definition lend_intent :: Intent where
  "lend_intent =
     \<lparr>user_wallet = ''0xUser'', chain_id = 1043, input_text = ''lend 5 bdag'',
      intent_json = JObj [(''intent_type'', JStr ''Lend_Stable''), (''asset'', JStr ''BDAG''),
                          (''amount'', JInt 5)],
      status = ''parsed''\<rparr>"

definition unclear_intent :: Intent where
  "unclear_intent =
     \<lparr>user_wallet = ''0xUser'', chain_id = 1043, input_text = ''hello'',
      intent_json = JObj [], status = ''clarify''\<rparr>"

definition sample_db :: "rat database" where
  "sample_db =
     \<lparr>intents = (\<lambda>i. if i = ''i-stake'' then Some stake_intent
                       else if i = ''i-lend'' then Some lend_intent
                       else if i = ''i-unclear'' then Some unclear_intent else None),
      plans = []\<rparr>"

text \<open>
  The surviving candidates of a list, each with the report that let it pass, in the
  order of the list: those whose check returns a report that is safe.
\<close>

fun survivors ::
  "(string \<Rightarrow> string \<Rightarrow> 'w \<Rightarrow> (exn + SecurityReport option) \<times> 'w) \<Rightarrow> string
     \<Rightarrow> 'f candidate list \<Rightarrow> 'w \<Rightarrow> ('f candidate \<times> SecurityReport) list" where
  "survivors check chain_id_str [] w = []"
| "survivors check chain_id_str (candidate # rest) w =
     (case check chain_id_str (address candidate) w of
        (Inr (Some report), w') \<Rightarrow>
          (if is_safe report then [(candidate, report)] else []) @
          survivors check chain_id_str rest w'
      | (other, w') \<Rightarrow> survivors check chain_id_str rest w')"

text \<open>An intent whose type is written in upper case.\<close>

definition shouted_intent :: Intent where
  "shouted_intent =
     \<lparr>user_wallet = ''0xUser'', chain_id = 1043, input_text = ''LEND 5 BDAG'',
      intent_json = JObj [(''intent_type'', JStr ''LEND''), (''asset'', JStr ''BDAG''),
                          (''amount'', JInt 5)],
      status = ''parsed''\<rparr>"

definition shouted_db :: "rat database" where
  "shouted_db = \<lparr>intents = (\<lambda>i. if i = ''i-shout'' then Some shouted_intent else None), plans = []\<rparr>"

section \<open>Properties of the security check\<close>

lemma run_security_check_aggregate:
  "\<exists>hp mc ws w'. run_security_check svc c a w = (Inr (aggregate hp mc ws), w')"
  unfolding run_security_check_def Let_def
  by (auto split: prod.splits)

lemma aggregate_bounds:
  "0 \<le> safety_score (aggregate hp mc ws) \<and> safety_score (aggregate hp mc ws) \<le> 100"
  by (simp add: aggregate_def Let_def)

text \<open>
  C1. The aggregation is a function of the honeypot flag, the malicious-creator flag and
  the warnings only: the report is safe exactly when neither flag is set, and its score
  is \<open>max(0, 100 - 10 * warningCount - 80 * [honeypot] - 50 * [maliciousCreator])\<close>,
  for every combination of the flags and every number of warnings. Every report of
  \<open>run_security_check\<close> is made by this function.
\<close>

theorem C1_safety_aggregation:
  "aggregate hp mc warns =
     \<lparr>is_safe = (\<not> hp \<and> \<not> mc),
      safety_score = max 0 (100 - 10 * int (length warns)
                              - 80 * (if hp then 1 else 0)
                              - 50 * (if mc then 1 else 0)),
      warnings = warns\<rparr>
   \<and> (\<exists>h m ws w'. run_security_check svc chain addr w = (Inr (aggregate h m ws), w'))"
  using run_security_check_aggregate [of svc chain addr w]
  by (simp add: aggregate_def Let_def mult.commute)

text \<open>
  C6. Every report that \<open>run_security_check\<close> returns has a safety score between 0
  and 100, whatever the flags and however many warnings were collected.
\<close>

theorem C6_safety_score_range:
  "\<exists>r w'. run_security_check svc chain addr w = (Inr r, w')
          \<and> 0 \<le> safety_score r \<and> safety_score r \<le> 100"
proof -
  obtain hp mc ws w' where
    "run_security_check svc chain addr w = (Inr (aggregate hp mc ws), w')"
    using run_security_check_aggregate by blast
  then show ?thesis
    using aggregate_bounds [of hp mc ws] by simp
qed

subsection \<open>The requests leave the oracle as it is\<close>

lemma http_net: "http w r = (x, w') \<Longrightarrow> net w' = net w"
  by (auto simp: http_def Let_def split: http_outcome.splits)

lemma redis_set_net: "redis_set w k v ex = Inr w' \<Longrightarrow> net w' = net w"
  by (auto simp: redis_set_def split: if_splits sum.splits)

lemma try_payloads_net: "try_payloads w le ps = (x, w') \<Longrightarrow> net w' = net w"
proof (induction ps arbitrary: w le)
  case Nil
  then show ?case by simp
next
  case (Cons p ps)
  then show ?case
    by (auto split: prod.splits sum.splits if_splits attempt.splits simp: Let_def)
       (metis http_net redis_set_net)+
qed

lemma get_access_token_net: "get_access_token svc w = (x, w') \<Longrightarrow> net w' = net w"
  by (auto simp: get_access_token_def fetch_access_token_def split: sum.splits option.splits if_splits prod.splits dest: try_payloads_net)

lemma obtain_token_net: "obtain_token svc w = (tok, w') \<Longrightarrow> net w' = net w"
  by (auto simp: obtain_token_def split: if_splits prod.splits sum.splits dest: get_access_token_net)

lemma token_security_try_net: "token_security_try c a tok w = (x, w') \<Longrightarrow> net w' = net w"
  by (auto simp: token_security_try_def split: prod.splits sum.splits dest: http_net)

lemma warnings_aggregate [simp]: "warnings (aggregate hp mc ws) = ws"
  by (simp add: aggregate_def Let_def)

text \<open>The method in terms of its three steps.\<close>

lemma run_security_check_steps:
  assumes "obtain_token svc w = (tok, w1)"
    and "token_security_try c a tok w1 = (r1, w2)"
    and "address_security_try c ''0xc8b759860149542a98a3eb57c14aadf59d6d89b9'' tok w2 = (r2, w3)"
  shows "run_security_check svc c a w =
     (Inr (aggregate
        (case r1 of Inl e \<Rightarrow> False | Inr found \<Rightarrow> fst found)
        (case r2 of Inl e \<Rightarrow> False | Inr found \<Rightarrow> fst found)
        ((case r1 of Inl e \<Rightarrow> [''Failed to perform token security check.'']
                   | Inr found \<Rightarrow> snd found) @
         (case r2 of Inl e \<Rightarrow> [''Failed to perform deployer address security check.'']
                   | Inr found \<Rightarrow> snd found))), w3)"
proof -
  have a: "(case r1 of
               Inl e \<Rightarrow> if is_status_error e
                         then (False, [''Failed to perform token security check.''])
                         else (False, [''Failed to perform token security check.''])
             | Inr found \<Rightarrow> found) =
           (case r1 of Inl e \<Rightarrow> False | Inr found \<Rightarrow> fst found,
            case r1 of Inl e \<Rightarrow> [''Failed to perform token security check.'']
                     | Inr found \<Rightarrow> snd found)"
    by (cases r1) simp_all
  have b: "(case r2 of
               Inl e \<Rightarrow> if is_status_error e
                         then (False, [''Failed to perform deployer address security check.''])
                         else (False, [''Failed to perform deployer address security check.''])
             | Inr found \<Rightarrow> found) =
           (case r2 of Inl e \<Rightarrow> False | Inr found \<Rightarrow> fst found,
            case r2 of Inl e \<Rightarrow> [''Failed to perform deployer address security check.'']
                     | Inr found \<Rightarrow> snd found)"
    by (cases r2) simp_all
  show ?thesis
    unfolding run_security_check_def find_deployer_address_def Let_def
    by (simp only: assms a b prod.case option.case list.distinct if_False)
qed

text \<open>
  C5. \<open>run_security_check\<close> returns a report for every service, chain, address and
  world, whatever the two requests come to. An exception raised anywhere in the body of
  the first \<open>try\<close> becomes the warning of the token check in the report, and one
  raised in the body of the second becomes the warning of the deployer check.
\<close>

theorem C5_check_never_raises:
  assumes "obtain_token svc w = (tok, w1)"
    and "token_security_try chain addr tok w1 = (r1, w2)"
    and "address_security_try chain ''0xc8b759860149542a98a3eb57c14aadf59d6d89b9'' tok w2 = (r2, w3)"
  shows "\<exists>r. run_security_check svc chain addr w = (Inr r, w3)
      \<and> (\<forall>e. r1 = Inl e \<longrightarrow> ''Failed to perform token security check.'' \<in> set (warnings r))
      \<and> (\<forall>e. r2 = Inl e \<longrightarrow> ''Failed to perform deployer address security check.'' \<in> set (warnings r))"
  unfolding run_security_check_steps [OF assms]
  by auto

theorem C5_check_never_raises_witness:
  "\<exists>r w3. run_security_check demo_service ''1043'' ''0xAb'' quiet_world = (Inr r, w3)
      \<and> ''Failed to perform token security check.'' \<in> set (warnings r)
      \<and> ''Failed to perform deployer address security check.'' \<in> set (warnings r)"
proof -
  obtain tok w1 where h1: "obtain_token demo_service quiet_world = (tok, w1)"
    by (cases "obtain_token demo_service quiet_world")
  obtain r1 w2 where h2: "token_security_try ''1043'' ''0xAb'' tok w1 = (r1, w2)"
    by (cases "token_security_try ''1043'' ''0xAb'' tok w1")
  obtain r2 w3 where h3:
    "address_security_try ''1043'' ''0xc8b759860149542a98a3eb57c14aadf59d6d89b9'' tok w2 = (r2, w3)"
    by (cases "address_security_try ''1043'' ''0xc8b759860149542a98a3eb57c14aadf59d6d89b9'' tok w2")
  have n1: "net w1 = (\<lambda>r. TransportFailure)"
    using obtain_token_net [OF h1] by (simp add: quiet_world_def)
  have n2: "net w2 = (\<lambda>r. TransportFailure)"
    using token_security_try_net [OF h2] n1 by simp
  have f1: "r1 = Inl RequestError"
    using h2 n1 by (simp add: token_security_try_def http_def Let_def)
  have f2: "r2 = Inl RequestError"
    using h3 n2 by (simp add: address_security_try_def http_def Let_def)
  from C5_check_never_raises [OF h1 h2 h3] f1 f2 show ?thesis by blast
qed

section \<open>Properties of the token cache\<close>

lemma py_int_sent [simp]: "py_int (w\<lparr>sent := x\<rparr>) j = py_int w j"
  by (cases j) simp_all

lemma shape_rejected_sent [simp]: "shape_rejected (w\<lparr>sent := x\<rparr>) q = shape_rejected w q"
  by (simp add: shape_rejected_def)

lemma shape_grants_sent [simp]: "shape_grants (w\<lparr>sent := x\<rparr>) q t e = shape_grants w q t e"
  by (simp add: shape_grants_def)








lemma obtain_token_no_creds:
  "api_key svc = [] \<or> api_secret svc = [] \<Longrightarrow> obtain_token svc w = (None, w)"
  by (auto simp: obtain_token_def)

text \<open>
  C8, as the code has it. With no key or no secret, \<open>run_security_check\<close> does not
  ask for a token at all: it returns a report and sends exactly its two requests, both
  without an \<open>Authorization\<close> header. The token method itself, on a cache miss,
  raises "credentials not configured".
\<close>

theorem C8_unauthenticated:
  assumes "api_key svc = [] \<or> api_secret svc = []"
  shows "obtain_token svc w = (None, w)
     \<and> (\<exists>r w'. run_security_check svc chain addr w = (Inr r, w')
           \<and> sent w' = sent w @
               [Get (GOPLUS_API_BASE @ ''/token_security/'' @ chain) [(''contract_addresses'', addr)] [],
                Get (GOPLUS_API_BASE @ ''/address_security/'' @ ''0xc8b759860149542a98a3eb57c14aadf59d6d89b9'')
                    [(''chain_id'', chain)] []])
     \<and> (redis_get w token_cache_key = Inr None \<longrightarrow>
          get_access_token svc w = (Inl (PyException ''GoPlus API credentials not configured''), w))"
proof -
  have a: "obtain_token svc w = (None, w)" using assms by (rule obtain_token_no_creds)
  have c: "redis_get w token_cache_key = Inr None \<longrightarrow>
          get_access_token svc w = (Inl (PyException ''GoPlus API credentials not configured''), w)"
    using assms by (auto simp: get_access_token_def fetch_access_token_def)
  have s1: "sent (snd (token_security_try chain addr None w0)) = sent w0 @ [Get (GOPLUS_API_BASE @ ''/token_security/'' @ chain) [(''contract_addresses'', addr)] []]" for w0
    by (auto simp: token_security_try_def http_def Let_def auth_headers_def split: http_outcome.splits)
  have s2: "sent (snd (address_security_try chain d None w0)) = sent w0 @ [Get (GOPLUS_API_BASE @ ''/address_security/'' @ d) [(''chain_id'', chain)] []]" for w0 d
    by (auto simp: address_security_try_def http_def Let_def auth_headers_def split: http_outcome.splits)
  have b: "\<exists>r w'. run_security_check svc chain addr w = (Inr r, w')
           \<and> sent w' = sent w @
               [Get (GOPLUS_API_BASE @ ''/token_security/'' @ chain) [(''contract_addresses'', addr)] [],
                Get (GOPLUS_API_BASE @ ''/address_security/'' @ ''0xc8b759860149542a98a3eb57c14aadf59d6d89b9'')
                    [(''chain_id'', chain)] []]"
    unfolding run_security_check_def Let_def find_deployer_address_def a
    using s1 [of w] s2 [of "''0xc8b759860149542a98a3eb57c14aadf59d6d89b9''" "snd (token_security_try chain addr None w)"]
    by (auto split: prod.splits)
  from a b c show ?thesis by blast
qed

text \<open>The claim as it stands fails: without key and secret the token method raises.\<close>

theorem C8_get_token_counterexample: "fst (get_access_token blank_service quiet_world) =
   Inl (PyException ''GoPlus API credentials not configured'')"
  by (simp add: get_access_token_def redis_get_def quiet_world_def fetch_access_token_def blank_service_def)

theorem C8_unauthenticated_witness:
  "obtain_token blank_service quiet_world = (None, quiet_world)
     \<and> (\<exists>r w'. run_security_check blank_service ''1043'' ''0xAb'' quiet_world = (Inr r, w')
           \<and> sent w' =
               [Get (GOPLUS_API_BASE @ ''/token_security/'' @ ''1043'') [(''contract_addresses'', ''0xAb'')] [],
                Get (GOPLUS_API_BASE @ ''/address_security/'' @ ''0xc8b759860149542a98a3eb57c14aadf59d6d89b9'')
                    [(''chain_id'', ''1043'')] []])
     \<and> get_access_token blank_service quiet_world =
          (Inl (PyException ''GoPlus API credentials not configured''), quiet_world)"
proof -
  have a: "api_key blank_service = [] \<or> api_secret blank_service = []"
    by (simp add: blank_service_def)
  have b: "redis_get quiet_world token_cache_key = Inr None" "sent quiet_world = []"
    by (simp_all add: redis_get_def quiet_world_def)
  from C8_unauthenticated [OF a, of quiet_world "''1043''" "''0xAb''"] b show ?thesis by simp
qed

section \<open>Properties of the token-security check\<close>

subsection \<open>The values that count as a literal of a flag\<close>

text \<open>
  \<open>str()\<close> of a decoded value is one of \<open>"0"\<close>, \<open>"false"\<close>, \<open>"False"\<close>
  exactly for the strings themselves, the number 0 and the boolean \<open>false\<close>;
  likewise for \<open>"1"\<close>, \<open>"true"\<close>, \<open>"True"\<close>. A flag that is missing is
  \<open>None\<close> and is neither.
\<close>

lemma digit_char_cases:
  assumes "n < 10"
  shows "digit_char n \<in> set ''0123456789''
       \<and> (digit_char n = CHR ''0'' \<longleftrightarrow> n = 0) \<and> (digit_char n = CHR ''1'' \<longleftrightarrow> n = 1)"
proof -
  have "n \<in> {0, 1, 2, 3, 4, 5, 6, 7, 8, 9}" using assms by auto
  then show ?thesis
    by (auto simp: digit_char_def)
qed

lemma show_nat_nonempty: "show_nat n \<noteq> []"
  by (subst show_nat.simps) simp

lemma last_show_nat: "last (show_nat n) = digit_char (n mod 10)"
  by (subst show_nat.simps) simp

lemma show_nat_single: "show_nat n = [c] \<longleftrightarrow> n < 10 \<and> c = digit_char n"
proof (cases "n < 10")
  case True
  then show ?thesis by (subst show_nat.simps) auto
next
  case False
  have "length (show_nat n) = length (show_nat (n div 10)) + 1"
    using False by (subst show_nat.simps) simp
  moreover have "length (show_nat (n div 10)) > 0" using show_nat_nonempty by simp
  ultimately have "length (show_nat n) \<noteq> 1" by simp
  then show ?thesis using False by auto
qed

lemma show_nat_not_word:
  "last s \<notin> set ''0123456789'' \<Longrightarrow> show_nat n \<noteq> s"
  using last_show_nat [of n] digit_char_cases [of "n mod 10"] by auto

lemma show_nat_zero: "show_nat n = ''0'' \<longleftrightarrow> n = 0"
  using show_nat_single [of n "CHR ''0''"] digit_char_cases [of n] by auto

lemma show_nat_one: "show_nat n = ''1'' \<longleftrightarrow> n = 1"
  using show_nat_single [of n "CHR ''1''"] digit_char_cases [of n] by auto

lemma show_int_zero: "show_int i = ''0'' \<longleftrightarrow> i = 0"
  by (auto simp: show_int_def show_nat_zero show_nat_nonempty)

lemma show_int_one: "show_int i = ''1'' \<longleftrightarrow> i = 1"
  by (auto simp: show_int_def show_nat_one show_nat_nonempty)

lemma show_int_not_word:
  assumes "last s \<notin> set ''0123456789''" and "s \<noteq> []"
  shows "show_int i \<noteq> s"
proof (cases "i < 0")
  case True
  have "last (show_int i) = last (show_nat (nat (- i)))"
    using True show_nat_nonempty by (simp add: show_int_def)
  then show ?thesis
    using assms(1) last_show_nat [of "nat (- i)"] digit_char_cases [of "nat (- i) mod 10"] by auto
next
  case False
  then show ?thesis using show_nat_not_word [OF assms(1)] by (simp add: show_int_def)
qed

lemma flag_is_false_iff:
  "flag_is_false v \<longleftrightarrow> v \<in> {JStr ''0'', JStr ''false'', JStr ''False'', JInt 0, JBool False}"
proof (cases v)
  case (JInt i)
  have "show_int i \<noteq> ''false''" "show_int i \<noteq> ''False''"
    by (rule show_int_not_word; simp)+
  then show ?thesis using JInt by (simp add: flag_is_false_def show_int_zero)
qed (auto simp: flag_is_false_def)

lemma flag_is_true_iff:
  "flag_is_true v \<longleftrightarrow> v \<in> {JStr ''1'', JStr ''true'', JStr ''True'', JInt 1, JBool True}"
proof (cases v)
  case (JInt i)
  have "show_int i \<noteq> ''true''" "show_int i \<noteq> ''True''"
    by (rule show_int_not_word; simp)+
  then show ?thesis using JInt by (simp add: flag_is_true_def show_int_one)
qed (auto simp: flag_is_true_def)

subsection \<open>The warnings of the first check\<close>

lemma address_security_try_warnings:
  "address_security_try c d tok w = (Inr (m, ws), w') \<Longrightarrow>
     set ws \<subseteq> {''Deployer address is related to honeypot activities.''}"
  by (auto simp: address_security_try_def address_findings_def and_then_def
           split: prod.splits sum.splits if_splits)

lemma token_security_try_found:
  assumes "net w (Get (GOPLUS_API_BASE @ ''/token_security/'' @ c) [(''contract_addresses'', a)]
                      (auth_headers tok)) = Body token_report"
    and "address_entry a token_report = Inr (JObj result)" and "result \<noteq> []"
  shows "fst (token_security_try c a tok w) =
           Inr (flag_is_true (dict_get result ''is_honeypot'' JNull),
                (if flag_is_true (dict_get result ''is_honeypot'' JNull)
                 then [''Honeypot detected by GoPlus.''] else []) @
                (if flag_is_false (dict_get result ''is_open_source'' JNull)
                 then [''Contract source code is not verified.''] else []))"
  using assms
  by (simp add: token_security_try_def http_def Let_def token_findings_def and_then_def)

lemma is_safe_aggregate: "is_safe (aggregate hp mc ws) \<longleftrightarrow> \<not> hp \<and> \<not> mc"
  by (simp add: aggregate_def Let_def)

lemma safety_score_aggregate:
  "safety_score (aggregate hp mc ws) =
     max 0 (100 - 10 * int (length ws) - (if hp then 80 else 0) - (if mc then 50 else 0))"
  by (simp add: aggregate_def Let_def mult.commute)

text \<open>
  C9, as the code has it. When the token-security answer holds a non-empty entry for the
  address, the report is the aggregate of: the honeypot flag, which is set exactly when
  \<open>str(is_honeypot)\<close> is one of \<open>"1"\<close>, \<open>"true"\<close>, \<open>"True"\<close>; the flag of
  the deployer check; and the warnings, among which the one about unverified source
  stands exactly when \<open>str(is_open_source)\<close> is one of \<open>"0"\<close>, \<open>"false"\<close>,
  \<open>"False"\<close>. A flag that is missing or has any other value adds no warning. The
  value of \<open>is_open_source\<close> enters neither the honeypot flag nor \<open>is_safe\<close>; it
  lowers the score by the ten points of its warning only.
\<close>

theorem C9_source_not_verified:
  assumes "obtain_token svc w = (tok, w1)"
    and "net w (Get (GOPLUS_API_BASE @ ''/token_security/'' @ c) [(''contract_addresses'', a)]
                    (auth_headers tok)) = Body token_report"
    and "address_entry a token_report = Inr (JObj result)"
    and "result \<noteq> []"
    and "token_security_try c a tok w1 = (r1, w2)"
    and "address_security_try c ''0xc8b759860149542a98a3eb57c14aadf59d6d89b9'' tok w2 = (r2, w3)"
  shows "\<exists>r. run_security_check svc c a w = (Inr r, w3)
     \<and> r = aggregate
           (py_str (dict_get result ''is_honeypot'' JNull) \<in> {''1'', ''true'', ''True''})
           (case r2 of Inl e \<Rightarrow> False | Inr found \<Rightarrow> fst found)
           ((if py_str (dict_get result ''is_honeypot'' JNull) \<in> {''1'', ''true'', ''True''}
             then [''Honeypot detected by GoPlus.''] else []) @
            (if py_str (dict_get result ''is_open_source'' JNull) \<in> {''0'', ''false'', ''False''}
             then [''Contract source code is not verified.''] else []) @
            (case r2 of Inl e \<Rightarrow> [''Failed to perform deployer address security check.'']
                      | Inr found \<Rightarrow> snd found))
     \<and> (''Contract source code is not verified.'' \<in> set (warnings r)
          \<longleftrightarrow> py_str (dict_get result ''is_open_source'' JNull) \<in> {''0'', ''false'', ''False''})
     \<and> (''Honeypot detected by GoPlus.'' \<in> set (warnings r)
          \<longleftrightarrow> py_str (dict_get result ''is_honeypot'' JNull) \<in> {''1'', ''true'', ''True''})
     \<and> (is_safe r \<longleftrightarrow>
          py_str (dict_get result ''is_honeypot'' JNull) \<notin> {''1'', ''true'', ''True''}
          \<and> \<not> (case r2 of Inl e \<Rightarrow> False | Inr found \<Rightarrow> fst found))
     \<and> safety_score r =
          max 0 (100 - 10 * int (length (warnings r))
                   - (if py_str (dict_get result ''is_honeypot'' JNull) \<in> {''1'', ''true'', ''True''}
                      then 80 else 0)
                   - (if (case r2 of Inl e \<Rightarrow> False | Inr found \<Rightarrow> fst found) then 50 else 0))"
proof -
  let ?hp = "py_str (dict_get result ''is_honeypot'' JNull) \<in> {''1'', ''true'', ''True''}"
  let ?nv = "py_str (dict_get result ''is_open_source'' JNull) \<in> {''0'', ''false'', ''False''}"
  let ?mc = "case r2 of Inl e \<Rightarrow> False | Inr found \<Rightarrow> fst found"
  let ?ws2 = "case r2 of Inl e \<Rightarrow> [''Failed to perform deployer address security check.'']
                       | Inr found \<Rightarrow> snd found"
  let ?ws = "(if ?hp then [''Honeypot detected by GoPlus.''] else []) @
             (if ?nv then [''Contract source code is not verified.''] else []) @ ?ws2"
  have n: "net w1 = net w" using obtain_token_net [OF assms(1)] .
  have r1: "r1 = Inr (?hp, (if ?hp then [''Honeypot detected by GoPlus.''] else []) @
                           (if ?nv then [''Contract source code is not verified.''] else []))"
    using token_security_try_found [of w1 c a tok token_report result] assms(2-5) n
    by (simp add: flag_is_true_def flag_is_false_def)
  have run: "run_security_check svc c a w = (Inr (aggregate ?hp ?mc ?ws), w3)"
    unfolding run_security_check_steps [OF assms(1,5,6)] r1 by simp
  have ws2: "''Contract source code is not verified.'' \<notin> set ?ws2
           \<and> ''Honeypot detected by GoPlus.'' \<notin> set ?ws2"
  proof (cases r2)
    case (Inl e)
    then show ?thesis by simp
  next
    case (Inr found)
    obtain m ws where f: "found = (m, ws)" by (cases found)
    have "set ws \<subseteq> {''Deployer address is related to honeypot activities.''}"
      using address_security_try_warnings assms(6) Inr f by blast
    then have "''Contract source code is not verified.'' \<notin> set ws"
         "''Honeypot detected by GoPlus.'' \<notin> set ws" by auto
    then show ?thesis using Inr f by simp
  qed
  have nvw: "''Contract source code is not verified.'' \<in> set ?ws \<longleftrightarrow> ?nv"
    using ws2 by simp
  have hpw: "''Honeypot detected by GoPlus.'' \<in> set ?ws \<longleftrightarrow> ?hp"
    using ws2 by simp
  have safe: "is_safe (aggregate ?hp ?mc ?ws) \<longleftrightarrow> \<not> ?hp \<and> \<not> ?mc"
    by (rule is_safe_aggregate)
  have score: "safety_score (aggregate ?hp ?mc ?ws) =
          max 0 (100 - 10 * int (length ?ws) - (if ?hp then 80 else 0) - (if ?mc then 50 else 0))"
    by (rule safety_score_aggregate)
  have w: "warnings (aggregate ?hp ?mc ?ws) = ?ws" by (rule warnings_aggregate)
  show ?thesis
  proof (intro exI conjI)
    show "run_security_check svc c a w = (Inr (aggregate ?hp ?mc ?ws), w3)" by (rule run)
    show "aggregate ?hp ?mc ?ws = aggregate ?hp ?mc ?ws" ..
    show "''Contract source code is not verified.'' \<in> set (warnings (aggregate ?hp ?mc ?ws)) \<longleftrightarrow> ?nv"
      unfolding w by (rule nvw)
    show "''Honeypot detected by GoPlus.'' \<in> set (warnings (aggregate ?hp ?mc ?ws)) \<longleftrightarrow> ?hp"
      unfolding w by (rule hpw)
    show "is_safe (aggregate ?hp ?mc ?ws) \<longleftrightarrow>
            py_str (dict_get result ''is_honeypot'' JNull) \<notin> {''1'', ''true'', ''True''} \<and> \<not> ?mc"
      by (rule safe)
    show "safety_score (aggregate ?hp ?mc ?ws) =
          max 0 (100 - 10 * int (length (warnings (aggregate ?hp ?mc ?ws)))
                   - (if ?hp then 80 else 0) - (if ?mc then 50 else 0))"
      unfolding w by (rule score)
  qed
qed

text \<open>
  The claim as it stands fails: an entry without \<open>is_open_source\<close> is not true by
  the literal set, and the report has no warning.
\<close>

theorem C9_missing_flag_counterexample:
  "\<not> flag_is_true (dict_get [(''is_honeypot'', JStr ''0'')] ''is_open_source'' JNull)
   \<and> fst (run_security_check blank_service ''1043'' ''0xAb''
             (report_world (JObj [(''is_honeypot'', JStr ''0'')]))) =
       Inr \<lparr>is_safe = True, safety_score = 100, warnings = []\<rparr>"
  by (simp add: run_security_check_def obtain_token_def blank_service_def report_world_def
        quiet_world_def token_security_try_def address_security_try_def http_def Let_def
        address_entry_def token_findings_def address_findings_def find_deployer_address_def
        and_then_def py_or_def dict_get_def py_lower_def lower_char_def flag_is_true_def
        flag_is_false_def aggregate_def auth_headers_def)

theorem C9_source_not_verified_witness:
  "\<exists>r w'. run_security_check blank_service ''1043'' ''0xAb''
             (report_world (JObj [(''is_honeypot'', JStr ''0''), (''is_open_source'', JInt 0)])) = (Inr r, w')
     \<and> ''Contract source code is not verified.'' \<in> set (warnings r)
     \<and> ''Honeypot detected by GoPlus.'' \<notin> set (warnings r)
     \<and> is_safe r
     \<and> safety_score r = 90"
proof -
  let ?entry = "[(''is_honeypot'', JStr ''0''), (''is_open_source'', JInt 0)]"
  let ?w = "report_world (JObj ?entry)"
  let ?body = "JObj [(''result'', JObj [(''0xab'', JObj ?entry)])]"
  have h1: "obtain_token blank_service ?w = (None, ?w)"
    by (simp add: obtain_token_def blank_service_def)
  have h2: "net ?w (Get (GOPLUS_API_BASE @ ''/token_security/'' @ ''1043'')
                    [(''contract_addresses'', ''0xAb'')] (auth_headers None)) = Body ?body"
    by (simp add: report_world_def)
  have h3: "address_entry ''0xAb'' ?body = Inr (JObj ?entry)"
    by (simp add: address_entry_def and_then_def py_or_def dict_get_def py_lower_def lower_char_def)
  have h4: "?entry \<noteq> []" by simp
  obtain r1 w2 where h5: "token_security_try ''1043'' ''0xAb'' None ?w = (r1, w2)"
    by (cases "token_security_try ''1043'' ''0xAb'' None ?w")
  obtain r2 w3 where h6:
    "address_security_try ''1043'' ''0xc8b759860149542a98a3eb57c14aadf59d6d89b9'' None w2 = (r2, w3)"
    by (cases "address_security_try ''1043'' ''0xc8b759860149542a98a3eb57c14aadf59d6d89b9'' None w2")
  have n2: "net w2 = (\<lambda>r. Body ?body)"
    using token_security_try_net [OF h5] by (simp add: report_world_def)
  have g: "address_findings ?body = Inr (False, [])"
    by (simp add: address_findings_def and_then_def dict_get_def flag_is_true_def)
  have r2: "r2 = Inr (False, [])"
    using h6 n2 g by (simp add: address_security_try_def http_def Let_def)
  have f: "py_str (dict_get ?entry ''is_open_source'' JNull) \<in> {''0'', ''false'', ''False''}"
          "py_str (dict_get ?entry ''is_honeypot'' JNull) \<notin> {''1'', ''true'', ''True''}"
    by (simp_all add: dict_get_def show_int_def show_nat.simps digit_char_def)
  from C9_source_not_verified [OF h1 h2 h3 h4 h5 h6]
  obtain r where r: "run_security_check blank_service ''1043'' ''0xAb'' ?w = (Inr r, w3)"
    "''Contract source code is not verified.'' \<in> set (warnings r)
          \<longleftrightarrow> py_str (dict_get ?entry ''is_open_source'' JNull) \<in> {''0'', ''false'', ''False''}"
    "''Honeypot detected by GoPlus.'' \<in> set (warnings r)
          \<longleftrightarrow> py_str (dict_get ?entry ''is_honeypot'' JNull) \<in> {''1'', ''true'', ''True''}"
    "is_safe r \<longleftrightarrow>
          py_str (dict_get ?entry ''is_honeypot'' JNull) \<notin> {''1'', ''true'', ''True''}
          \<and> \<not> (case r2 of Inl e \<Rightarrow> False | Inr found \<Rightarrow> fst found)"
    "r = aggregate
           (py_str (dict_get ?entry ''is_honeypot'' JNull) \<in> {''1'', ''true'', ''True''})
           (case r2 of Inl e \<Rightarrow> False | Inr found \<Rightarrow> fst found)
           ((if py_str (dict_get ?entry ''is_honeypot'' JNull) \<in> {''1'', ''true'', ''True''}
             then [''Honeypot detected by GoPlus.''] else []) @
            (if py_str (dict_get ?entry ''is_open_source'' JNull) \<in> {''0'', ''false'', ''False''}
             then [''Contract source code is not verified.''] else []) @
            (case r2 of Inl e \<Rightarrow> [''Failed to perform deployer address security check.'']
                      | Inr found \<Rightarrow> snd found))"
    by (elim exE conjE)
  have s: "safety_score r = 90"
    unfolding r(5) using f r2 by (simp add: aggregate_def Let_def)
  have "''Contract source code is not verified.'' \<in> set (warnings r)" using r(2) f(1) by simp
  moreover have "''Honeypot detected by GoPlus.'' \<notin> set (warnings r)" using r(3) f(2) by simp
  moreover have "is_safe r" using r(4) f(2) r2 by simp
  ultimately show ?thesis using r(1) s by blast
qed

section \<open>Properties of the planning endpoint\<close>

subsection \<open>The loop over the candidates and the maximum\<close>

lemma check_candidates_acc:
  "check_candidates ops check ch cands acc w =
     (acc @ fst (check_candidates ops check ch cands [] w),
      snd (check_candidates ops check ch cands [] w))"
proof (induction cands arbitrary: acc w)
  case Nil
  then show ?case by simp
next
  case (Cons c cands)
  show ?case
  proof (cases "check ch (address c) w")
    case (Pair x w1)
    show ?thesis
    proof (cases x)
      case (Inl e)
      then show ?thesis using Pair Cons.IH [of acc w1] by simp
    next
      case (Inr ro)
      show ?thesis
      proof (cases ro)
        case None
        then show ?thesis using Pair Inr Cons.IH [of acc w1] by simp
      next
        case (Some report)
        show ?thesis
          using Pair Inr Some Cons.IH [of acc w1]
            Cons.IH [of "acc @ [candidate_schema ops c report]" w1]
            Cons.IH [of "[candidate_schema ops c report]" w1]
          by simp
      qed
    qed
  qed
qed

lemma check_candidates_Cons:
  "check_candidates ops check ch (c # cands) [] w =
     (case check ch (address c) w of
        (Inr (Some report), w') \<Rightarrow>
          if is_safe report
          then (candidate_schema ops c report # fst (check_candidates ops check ch cands [] w'),
                snd (check_candidates ops check ch cands [] w'))
          else check_candidates ops check ch cands [] w'
      | (other, w') \<Rightarrow> check_candidates ops check ch cands [] w')"
  using check_candidates_acc [of ops check ch cands "[candidate_schema ops c _]"]
  by (auto split: prod.splits sum.splits option.splits)


lemma check_candidates_order:
  "subseq (map c_address (fst (check_candidates ops check ch cands [] w))) (map address cands)"
proof (induction cands arbitrary: w)
  case Nil
  then show ?case by simp
next
  case (Cons c cands)
  show ?case
    unfolding check_candidates_Cons
    using Cons.IH
    by (auto split: prod.splits sum.splits option.splits simp: candidate_schema_def Let_def)
qed

lemma check_candidates_empty:
  "fst (check_candidates ops check ch cands [] w) = [] \<longleftrightarrow> all_filtered check ch cands w"
proof (induction cands arbitrary: w)
  case Nil
  then show ?case by simp
next
  case (Cons c cands)
  show ?case
    unfolding check_candidates_Cons
    using Cons.IH
    by (auto split: prod.splits sum.splits option.splits)
qed

lemma max_loop_first:
  "(max_loop key best xs = best \<and> (\<forall>x\<in>set xs. key x \<le> key best)) \<or>
   (\<exists>pre post. xs = pre @ max_loop key best xs # post
       \<and> (\<forall>x\<in>set pre. key x < key (max_loop key best xs))
       \<and> key best < key (max_loop key best xs)
       \<and> (\<forall>x\<in>set post. key x \<le> key (max_loop key best xs)))"
proof (induction xs arbitrary: best)
  case Nil
  then show ?case by simp
next
  case (Cons x xs)
  show ?case
  proof (cases "key best < key x")
    case True
    from Cons.IH [of x] show ?thesis
    proof
      assume a: "max_loop key x xs = x \<and> (\<forall>y\<in>set xs. key y \<le> key x)"
      have "x # xs = [] @ max_loop key best (x # xs) # xs" using True a by simp
      moreover have "key best < key (max_loop key best (x # xs))" using True a by simp
      moreover have "\<forall>y\<in>set xs. key y \<le> key (max_loop key best (x # xs))" using True a by simp
      ultimately show ?thesis by (metis empty_iff list.set(1))
    next
      assume "\<exists>pre post. xs = pre @ max_loop key x xs # post
       \<and> (\<forall>y\<in>set pre. key y < key (max_loop key x xs))
       \<and> key x < key (max_loop key x xs)
       \<and> (\<forall>y\<in>set post. key y \<le> key (max_loop key x xs))"
      then obtain pre post where p: "xs = pre @ max_loop key x xs # post"
        "\<forall>y\<in>set pre. key y < key (max_loop key x xs)"
        "key x < key (max_loop key x xs)"
        "\<forall>y\<in>set post. key y \<le> key (max_loop key x xs)" by blast
      have m: "max_loop key best (x # xs) = max_loop key x xs" using True by simp
      have "x # xs = (x # pre) @ max_loop key best (x # xs) # post" using p(1) m by simp
      moreover have "\<forall>y\<in>set (x # pre). key y < key (max_loop key best (x # xs))"
        using p(2,3) m by simp
      moreover have "key best < key (max_loop key best (x # xs))" using True p(3) m by simp
      moreover have "\<forall>y\<in>set post. key y \<le> key (max_loop key best (x # xs))" using p(4) m by simp
      ultimately show ?thesis by blast
    qed
  next
    case False
    then have m: "max_loop key best (x # xs) = max_loop key best xs" by simp
    from Cons.IH [of best] show ?thesis
    proof
      assume "max_loop key best xs = best \<and> (\<forall>y\<in>set xs. key y \<le> key best)"
      then show ?thesis using False m by auto
    next
      assume "\<exists>pre post. xs = pre @ max_loop key best xs # post
       \<and> (\<forall>y\<in>set pre. key y < key (max_loop key best xs))
       \<and> key best < key (max_loop key best xs)
       \<and> (\<forall>y\<in>set post. key y \<le> key (max_loop key best xs))"
      then obtain pre post where p: "xs = pre @ max_loop key best xs # post"
        "\<forall>y\<in>set pre. key y < key (max_loop key best xs)"
        "key best < key (max_loop key best xs)"
        "\<forall>y\<in>set post. key y \<le> key (max_loop key best xs)" by blast
      have "x # xs = (x # pre) @ max_loop key best (x # xs) # post" using p(1) m by simp
      moreover have "\<forall>y\<in>set (x # pre). key y < key (max_loop key best (x # xs))"
        using p(2,3) m False by auto
      moreover have "key best < key (max_loop key best (x # xs))" using p(3) m by simp
      moreover have "\<forall>y\<in>set post. key y \<le> key (max_loop key best (x # xs))" using p(4) m by simp
      ultimately show ?thesis by blast
    qed
  qed
qed

lemma py_max_first:
  assumes "xs \<noteq> []"
  shows "\<exists>pre m post. xs = pre @ m # post \<and> py_max key xs = Inr m
       \<and> (\<forall>x\<in>set pre. key x < key m) \<and> (\<forall>x\<in>set post. key x \<le> key m)"
proof -
  obtain b rest where xs: "xs = b # rest" using assms by (cases xs) auto
  have pm: "py_max key xs = Inr (max_loop key b rest)" by (simp add: py_max_def xs)
  from max_loop_first [of key b rest] show ?thesis
  proof
    assume a: "max_loop key b rest = b \<and> (\<forall>x\<in>set rest. key x \<le> key b)"
    have "xs = [] @ b # rest" by (simp add: xs)
    then show ?thesis using a pm by (metis empty_iff list.set(1))
  next
    assume "\<exists>pre post. rest = pre @ max_loop key b rest # post
       \<and> (\<forall>x\<in>set pre. key x < key (max_loop key b rest))
       \<and> key b < key (max_loop key b rest)
       \<and> (\<forall>x\<in>set post. key x \<le> key (max_loop key b rest))"
    then obtain pre post where p: "rest = pre @ max_loop key b rest # post"
       "\<forall>x\<in>set pre. key x < key (max_loop key b rest)"
       "key b < key (max_loop key b rest)"
       "\<forall>x\<in>set post. key x \<le> key (max_loop key b rest)" by blast
    have "xs = (b # pre) @ max_loop key b rest # post" using p(1) xs by simp
    moreover have "\<forall>x\<in>set (b # pre). key x < key (max_loop key b rest)" using p(2,3) by simp
    ultimately show ?thesis using pm p(4) by blast
  qed
qed

lemma check_candidates_survivors:
  "fst (check_candidates ops check ch cands [] w) =
     map (\<lambda>(c, report). candidate_schema ops c report) (survivors check ch cands w)"
proof (induction cands arbitrary: w)
  case Nil
  then show ?case by simp
next
  case (Cons c cands)
  show ?case
    unfolding check_candidates_Cons
    using Cons.IH
    by (auto split: prod.splits sum.splits option.splits)
qed

lemma survivors_order: "subseq (map fst (survivors check ch cands w)) cands"
proof (induction cands arbitrary: w)
  case Nil
  then show ?case by simp
next
  case (Cons c cands)
  show ?case
    using Cons.IH
    by (auto split: prod.splits sum.splits option.splits)
qed

lemma survivors_safe: "(c, report) \<in> set (survivors check ch cands w) \<Longrightarrow> is_safe report"
proof (induction cands arbitrary: w)
  case Nil
  then show ?case by simp
next
  case (Cons d cands)
  obtain x w1 where k: "check ch (address d) w = (x, w1)"
    by (cases "check ch (address d) w")
  show ?case
  proof (cases x)
    case (Inl e)
    then show ?thesis using Cons k by simp
  next
    case (Inr ro)
    show ?thesis
    proof (cases ro)
      case None
      then show ?thesis using Cons k Inr by simp
    next
      case (Some rep)
      then show ?thesis using Cons k Inr by (auto split: if_splits)
    qed
  qed
qed

lemma candidate_schema_explicit:
  "candidate_schema ops c report =
     \<lparr>c_address = address c,
      c_apy = mock_apy c,
      c_tvl = mock_tvl c,
      c_safety_score = safety_score report,
      c_utility =
        f_round ops
          (f_add ops (f_mul ops (mock_apy c) (f_lit ops ''0.5''))
                     (f_mul ops (f_div ops (f_of_int ops (safety_score report)) (f_lit ops ''100.0''))
                                (f_lit ops ''0.5''))) 6,
      c_warnings = warnings report,
      c_protocol = protocol c\<rparr>"
  by (simp add: candidate_schema_def utility_of_def Let_def)

lemma plan_for_chooses:
  fixes ops :: "'f::linorder float_ops"
  assumes "check_candidates ops check (show_int (chain_id intent)) cands [] w = (results, w')"
    and "results \<noteq> []"
    and "py_max c_utility results = Inr best"
    and "intent_json intent = JObj kvs"
  shows "\<exists>db'. plan_for ops check new_id intent_id intent ty cands db w =
           (Inr \<lparr>out_plan_id = new_id, candidates = results, chosen = best\<rparr>, db', w')"
  using assms
  by (simp add: plan_for_def Let_def)

text \<open>
  C2. When the list of surviving candidates is not empty, the rows of the result are the
  survivors in whitelist order, each with the utility
  \<open>round(mock_apy * 0.5 + (safety_score / 100.0) * 0.5, 6)\<close> of its whitelist entry
  and its report. The chosen row is a maximum of the utilities with every earlier row
  strictly below it: the first maximum. For an intent whose \<open>intent_json\<close> is a dict
  the endpoint returns exactly these rows and this choice.
\<close>

theorem C2_utility_and_first_maximum:
  fixes ops :: "'f::linorder float_ops"
  assumes "survivors check ch cands w \<noteq> []"
  shows "\<exists>results pre best post.
       fst (check_candidates ops check ch cands [] w) = results
     \<and> results =
         map (\<lambda>(c, report).
                \<lparr>c_address = address c,
                 c_apy = mock_apy c,
                 c_tvl = mock_tvl c,
                 c_safety_score = safety_score report,
                 c_utility =
                   f_round ops
                     (f_add ops (f_mul ops (mock_apy c) (f_lit ops ''0.5''))
                                (f_mul ops (f_div ops (f_of_int ops (safety_score report))
                                                      (f_lit ops ''100.0''))
                                           (f_lit ops ''0.5''))) 6,
                 c_warnings = warnings report,
                 c_protocol = protocol c\<rparr>)
             (survivors check ch cands w)
     \<and> subseq (map fst (survivors check ch cands w)) cands
     \<and> (\<forall>p\<in>set (survivors check ch cands w). is_safe (snd p))
     \<and> results = pre @ best # post
     \<and> py_max c_utility results = Inr best
     \<and> (\<forall>r\<in>set pre. c_utility r < c_utility best)
     \<and> (\<forall>r\<in>set post. c_utility r \<le> c_utility best)
     \<and> (\<forall>new_id intent_id intent ty db kvs.
           ch = show_int (chain_id intent) \<and> intent_json intent = JObj kvs \<longrightarrow>
           (\<exists>db'. plan_for ops check new_id intent_id intent ty cands db w =
                   (Inr \<lparr>out_plan_id = new_id, candidates = results, chosen = best\<rparr>, db',
                    snd (check_candidates ops check ch cands [] w))))"
proof -
  let ?results = "fst (check_candidates ops check ch cands [] w)"
  have rows: "?results =
         map (\<lambda>(c, report).
                \<lparr>c_address = address c,
                 c_apy = mock_apy c,
                 c_tvl = mock_tvl c,
                 c_safety_score = safety_score report,
                 c_utility =
                   f_round ops
                     (f_add ops (f_mul ops (mock_apy c) (f_lit ops ''0.5''))
                                (f_mul ops (f_div ops (f_of_int ops (safety_score report))
                                                      (f_lit ops ''100.0''))
                                           (f_lit ops ''0.5''))) 6,
                 c_warnings = warnings report,
                 c_protocol = protocol c\<rparr>)
             (survivors check ch cands w)"
    unfolding check_candidates_survivors candidate_schema_explicit ..
  have ne: "?results \<noteq> []"
    using assms by (simp add: check_candidates_survivors)
  from py_max_first [OF ne, of c_utility]
  obtain pre best post where m: "?results = pre @ best # post"
    "py_max c_utility ?results = Inr best"
    "\<forall>r\<in>set pre. c_utility r < c_utility best"
    "\<forall>r\<in>set post. c_utility r \<le> c_utility best"
    by blast
  have pf: "\<forall>new_id intent_id intent ty db kvs.
           ch = show_int (chain_id intent) \<and> intent_json intent = JObj kvs \<longrightarrow>
           (\<exists>db'. plan_for ops check new_id intent_id intent ty cands db w =
                   (Inr \<lparr>out_plan_id = new_id, candidates = ?results, chosen = best\<rparr>, db',
                    snd (check_candidates ops check ch cands [] w)))"
  proof (intro allI impI)
    fix new_id intent_id :: string and intent :: Intent and ty :: string
      and db :: "'f database" and kvs
    assume h: "ch = show_int (chain_id intent) \<and> intent_json intent = JObj kvs"
    have c: "check_candidates ops check (show_int (chain_id intent)) cands [] w =
               (?results, snd (check_candidates ops check ch cands [] w))"
      using h by simp
    from plan_for_chooses [OF c ne m(2), of kvs new_id intent_id ty db] h
    show "\<exists>db'. plan_for ops check new_id intent_id intent ty cands db w =
                   (Inr \<lparr>out_plan_id = new_id, candidates = ?results, chosen = best\<rparr>, db',
                    snd (check_candidates ops check ch cands [] w))"
      by simp
  qed
  have safe: "\<forall>p\<in>set (survivors check ch cands w). is_safe (snd p)"
    using survivors_safe [of _ _ check ch cands w] by auto
  from rows survivors_order [of check ch cands w] safe m pf show ?thesis
    by blast
qed

lemma three_results:
  "check_candidates exact_ops scored_check ''1043'' three_candidates [] () =
     ([candidate_schema exact_ops (three_candidates ! 0) \<lparr>is_safe = True, safety_score = 100, warnings = []\<rparr>,
       candidate_schema exact_ops (three_candidates ! 1) \<lparr>is_safe = True, safety_score = 100, warnings = []\<rparr>,
       candidate_schema exact_ops (three_candidates ! 2) \<lparr>is_safe = True, safety_score = 80, warnings = []\<rparr>], ())"
  by (simp add: three_candidates_def scored_check_def)

lemma three_survive: "survivors scored_check ''1043'' three_candidates () \<noteq> []"
  by (simp add: three_candidates_def scored_check_def)

lemma stake_intent_chain: "show_int (chain_id stake_intent) = ''1043''"
  by (simp add: stake_intent_def show_int_def show_nat.simps digit_char_def)

theorem C2_utility_and_first_maximum_witness:
  "(\<exists>db'. plan_for exact_ops scored_check ''p-1'' ''i-stake'' stake_intent ''stake_and_compound''
            three_candidates sample_db () =
          (Inr \<lparr>out_plan_id = ''p-1'',
                candidates =
                  [candidate_schema exact_ops (three_candidates ! 0)
                     \<lparr>is_safe = True, safety_score = 100, warnings = []\<rparr>,
                   candidate_schema exact_ops (three_candidates ! 1)
                     \<lparr>is_safe = True, safety_score = 100, warnings = []\<rparr>,
                   candidate_schema exact_ops (three_candidates ! 2)
                     \<lparr>is_safe = True, safety_score = 80, warnings = []\<rparr>],
                chosen = candidate_schema exact_ops (three_candidates ! 0)
                           \<lparr>is_safe = True, safety_score = 100, warnings = []\<rparr>\<rparr>, db', ()))
   \<and> map c_utility
         [candidate_schema exact_ops (three_candidates ! 0)
            \<lparr>is_safe = True, safety_score = 100, warnings = []\<rparr>,
          candidate_schema exact_ops (three_candidates ! 1)
            \<lparr>is_safe = True, safety_score = 100, warnings = []\<rparr>,
          candidate_schema exact_ops (three_candidates ! 2)
            \<lparr>is_safe = True, safety_score = 80, warnings = []\<rparr>] = [14 / 25, 14 / 25, 17 / 40]"
proof -
  let ?rows = "[candidate_schema exact_ops (three_candidates ! 0)
                     \<lparr>is_safe = True, safety_score = 100, warnings = []\<rparr>,
                   candidate_schema exact_ops (three_candidates ! 1)
                     \<lparr>is_safe = True, safety_score = 100, warnings = []\<rparr>,
                   candidate_schema exact_ops (three_candidates ! 2)
                     \<lparr>is_safe = True, safety_score = 80, warnings = []\<rparr>]"
  from C2_utility_and_first_maximum [OF three_survive, of exact_ops]
  obtain results pre best post where
    f: "fst (check_candidates exact_ops scored_check ''1043'' three_candidates [] ()) = results"
    and m: "py_max c_utility results = Inr best"
    and pf: "\<forall>new_id intent_id intent ty db kvs.
           ''1043'' = show_int (chain_id intent) \<and> intent_json intent = JObj kvs \<longrightarrow>
           (\<exists>db'. plan_for exact_ops scored_check new_id intent_id intent ty three_candidates db () =
                   (Inr \<lparr>out_plan_id = new_id, candidates = results, chosen = best\<rparr>, db',
                    snd (check_candidates exact_ops scored_check ''1043'' three_candidates [] ())))"
    by (elim exE conjE)
  have r: "results = ?rows" using f by (simp add: three_results)
  have u: "map c_utility ?rows = [14 / 25, 14 / 25, 17 / 40]"
    by (simp add: candidate_schema_def utility_of_def exact_ops_def three_candidates_def Let_def)
  have "py_max c_utility ?rows = Inr (candidate_schema exact_ops (three_candidates ! 0)
                           \<lparr>is_safe = True, safety_score = 100, warnings = []\<rparr>)"
    by (simp add: py_max_def candidate_schema_def utility_of_def exact_ops_def three_candidates_def Let_def)
  then have b: "best = candidate_schema exact_ops (three_candidates ! 0)
                           \<lparr>is_safe = True, safety_score = 100, warnings = []\<rparr>"
    using m r by simp
  have j: "''1043'' = show_int (chain_id stake_intent)
           \<and> intent_json stake_intent = JObj [(''intent_type'', JStr ''stake_and_compound''), (''asset'', JStr ''BDAG''),
                          (''amount'', JInt 1000), (''amount_unit'', JStr ''token''),
                          (''target'', JStr ''highest_risk_adjusted_apr'')]"
    using stake_intent_chain by (simp add: stake_intent_def)
  from pf [rule_format, OF j, of "''p-1''" "''i-stake''" "''stake_and_compound''" sample_db]
  have "\<exists>db'. plan_for exact_ops scored_check ''p-1'' ''i-stake'' stake_intent ''stake_and_compound''
            three_candidates sample_db () =
          (Inr \<lparr>out_plan_id = ''p-1'', candidates = results, chosen = best\<rparr>, db', ())"
    by simp
  then show ?thesis
    unfolding r b using u by (intro conjI)
qed

subsection \<open>Sample runs of the security service\<close>

lemma obtain_token_blank: "obtain_token blank_service w = (None, w)"
  by (simp add: obtain_token_def blank_service_def)

lemma quiet_report:
  "fst (run_security_check blank_service c a quiet_world) =
     Inr \<lparr>is_safe = True, safety_score = 80,
          warnings = [''Failed to perform token security check.'',
                      ''Failed to perform deployer address security check.'']\<rparr>"
proof -
  obtain r1 w2 where h2: "token_security_try c a None quiet_world = (r1, w2)"
    by (cases "token_security_try c a None quiet_world")
  obtain r2 w3 where h3:
    "address_security_try c ''0xc8b759860149542a98a3eb57c14aadf59d6d89b9'' None w2 = (r2, w3)"
    by (cases "address_security_try c ''0xc8b759860149542a98a3eb57c14aadf59d6d89b9'' None w2")
  have n2: "net w2 = (\<lambda>r. TransportFailure)"
    using token_security_try_net [OF h2] by (simp add: quiet_world_def)
  have f1: "r1 = Inl RequestError"
    using h2 by (simp add: token_security_try_def http_def Let_def quiet_world_def)
  have f2: "r2 = Inl RequestError"
    using h3 n2 by (simp add: address_security_try_def http_def Let_def)
  show ?thesis
    unfolding run_security_check_steps [OF obtain_token_blank h2 h3] f1 f2
    by (simp add: aggregate_def)
qed

lemma honeypot_report:
  "fst (run_security_check blank_service c ''0x1b227DF9c8D34CaB880774737FBf426E66Ba98Ed'' honeypot_world) =
     Inr \<lparr>is_safe = False, safety_score = 10, warnings = [''Honeypot detected by GoPlus.'']\<rparr>"
proof -
  let ?a = "''0x1b227DF9c8D34CaB880774737FBf426E66Ba98Ed''"
  let ?body = "JObj [(''result'',
        JObj [(''0x1b227df9c8d34cab880774737fbf426e66ba98ed'',
               JObj [(''is_honeypot'', JStr ''1'')])])]"
  obtain r1 w2 where h2: "token_security_try c ?a None honeypot_world = (r1, w2)"
    by (cases "token_security_try c ?a None honeypot_world")
  obtain r2 w3 where h3:
    "address_security_try c ''0xc8b759860149542a98a3eb57c14aadf59d6d89b9'' None w2 = (r2, w3)"
    by (cases "address_security_try c ''0xc8b759860149542a98a3eb57c14aadf59d6d89b9'' None w2")
  have n1: "net honeypot_world = (\<lambda>r. Body ?body)"
    by (simp add: honeypot_world_def)
  have n2: "net w2 = (\<lambda>r. Body ?body)"
    using token_security_try_net [OF h2] n1 by simp
  have low: "py_lower ?a = ''0x1b227df9c8d34cab880774737fbf426e66ba98ed''"
    by (simp add: py_lower_def lower_char_def)
  have e: "address_entry ?a ?body = Inr (JObj [(''is_honeypot'', JStr ''1'')])"
    by (simp add: address_entry_def and_then_def py_or_def dict_get_def low)
  have t: "token_findings (JObj [(''is_honeypot'', JStr ''1'')]) = Inr (True, [''Honeypot detected by GoPlus.''])"
    by (simp add: token_findings_def and_then_def dict_get_def flag_is_true_def flag_is_false_def)
  have f1: "r1 = Inr (True, [''Honeypot detected by GoPlus.''])"
    using h2 n1 e t by (simp add: token_security_try_def http_def Let_def and_then_def)
  have g: "address_findings ?body = Inr (False, [])"
    by (simp add: address_findings_def and_then_def dict_get_def flag_is_true_def)
  have f2: "r2 = Inr (False, [])"
    using h3 n2 g by (simp add: address_security_try_def http_def Let_def)
  show ?thesis
    unfolding run_security_check_steps [OF obtain_token_blank h2 h3] f1 f2
    by (simp add: aggregate_def)
qed

lemma goplus_check_fst:
  "fst (run_security_check svc c a w) = Inr report \<Longrightarrow>
     goplus_check svc c a w = (Inr (Some report), snd (run_security_check svc c a w))"
  by (cases "run_security_check svc c a w") (simp add: goplus_check_def)

lemma show_1043: "show_int 1043 = ''1043''"
  by (simp add: show_int_def show_nat.simps digit_char_def)

text \<open>
  C4. When every candidate of the selected whitelist is filtered out, the endpoint fails
  with \<open>HttpError 500\<close> and the database is the one it was given: no plan is built
  or stored.
\<close>

theorem C4_no_safe_candidates:
  fixes ops :: "'f::linorder float_ops"
  assumes "intents db intent_id = Some intent"
    and "intent_type_of (intent_json intent) = Inr ty"
    and "all_filtered check (show_int (chain_id intent)) (candidates_to_check ops ty) w"
  shows "\<exists>w'. plan_intent ops check new_id intent_id db w =
                 (Inl (HttpError 500 NO_SAFE_CANDIDATES), db, w')"
proof -
  obtain results w' where r:
    "check_candidates ops check (show_int (chain_id intent)) (candidates_to_check ops ty) [] w = (results, w')"
    by (cases "check_candidates ops check (show_int (chain_id intent)) (candidates_to_check ops ty) [] w")
  have "results = []"
    using check_candidates_empty [of ops check "show_int (chain_id intent)" "candidates_to_check ops ty" w]
      assms(3) r by simp
  then show ?thesis
    using assms(1,2) r by (simp add: plan_intent_def plan_for_def)
qed

theorem C4_no_safe_candidates_witness:
  "\<exists>w'. plan_intent exact_ops (goplus_check blank_service) ''p-1'' ''i-stake'' sample_db honeypot_world =
          (Inl (HttpError 500 NO_SAFE_CANDIDATES), sample_db, w')"
proof -
  have i: "intents sample_db ''i-stake'' = Some stake_intent"
    by (simp add: sample_db_def)
  have t: "intent_type_of (intent_json stake_intent) = Inr ''stake_and_compound''"
    by (simp add: intent_type_of_def stake_intent_def and_then_def py_or_def dict_get_def
          py_lower_def lower_char_def)
  have c: "candidates_to_check exact_ops ''stake_and_compound'' = CANDIDATE_FARMS exact_ops"
    by (simp add: candidates_to_check_def)
  have f: "all_filtered (goplus_check blank_service) (show_int (chain_id stake_intent))
             (candidates_to_check exact_ops ''stake_and_compound'') honeypot_world"
    unfolding c
    by (simp add: CANDIDATE_FARMS_def goplus_check_fst [OF honeypot_report])
  from C4_no_safe_candidates [OF i t f] show ?thesis .
qed



text \<open>
  C10, as the code has it. The category is the \<open>intent_type\<close> of the intent's
  dict, the empty string when the key is missing, and it is lower-cased before the
  tests. When the lower-cased category contains none of "lend", "borrow", "stake" and
  "farm", the endpoint goes on with the staking whitelist: it neither fails nor asks back
  at this point. When the staking farm is reported safe it returns a plan that approves
  and stakes on the farm, and when the farm is filtered out it fails with the error of
  no safe candidates.
\<close>

theorem C10_default_to_staking:
  fixes ops :: "'f::linorder float_ops"
  assumes "intents db intent_id = Some intent"
    and "intent_json intent = JObj kvs"
    and "dict_get kvs ''intent_type'' (JStr []) = JStr category"
    and "\<not> py_in ''lend'' (py_lower category)" and "\<not> py_in ''borrow'' (py_lower category)"
    and "\<not> py_in ''stake'' (py_lower category)" and "\<not> py_in ''farm'' (py_lower category)"
  shows "intent_type_of (intent_json intent) = Inr (py_lower category)
     \<and> candidates_to_check ops (py_lower category) = CANDIDATE_FARMS ops
     \<and> plan_intent ops check new_id intent_id db w =
         plan_for ops check new_id intent_id intent (py_lower category) (CANDIDATE_FARMS ops) db w
     \<and> (\<forall>report w1.
          check (show_int (chain_id intent)) ''0x1b227DF9c8D34CaB880774737FBf426E66Ba98Ed'' w
             = (Inr (Some report), w1)
          \<and> is_safe report \<longrightarrow>
          (\<exists>out db'. plan_intent ops check new_id intent_id db w = (Inr out, db', w1)
             \<and> c_address (chosen out) = ''0x1b227DF9c8D34CaB880774737FBf426E66Ba98Ed''
             \<and> c_protocol (chosen out) = ''staking''
             \<and> (\<exists>p. plans db' = plans db @ [p]
                  \<and> steps (plan_json p) =
                      [Approve (dict_get kvs ''asset'' JNull) (dict_get kvs ''amount'' JNull)
                         ''0x1b227DF9c8D34CaB880774737FBf426E66Ba98Ed'',
                       Stake ''0x1b227DF9c8D34CaB880774737FBf426E66Ba98Ed''
                         (dict_get kvs ''asset'' JNull) (dict_get kvs ''amount'' JNull)])))
     \<and> (all_filtered check (show_int (chain_id intent)) (CANDIDATE_FARMS ops) w \<longrightarrow>
          (\<exists>w'. plan_intent ops check new_id intent_id db w =
                  (Inl (HttpError 500 NO_SAFE_CANDIDATES), db, w')))"
proof (intro conjI allI impI)
  show t: "intent_type_of (intent_json intent) = Inr (py_lower category)"
    using assms(2,3)
    by (cases "kvs = []") (simp_all add: intent_type_of_def and_then_def py_or_def dict_get_def)
  show c: "candidates_to_check ops (py_lower category) = CANDIDATE_FARMS ops"
    using assms(4-7) by (simp add: candidates_to_check_def)
  show p: "plan_intent ops check new_id intent_id db w =
         plan_for ops check new_id intent_id intent (py_lower category) (CANDIDATE_FARMS ops) db w"
    using assms(1) t c by (simp add: plan_intent_def)
  {
    fix report w1
    assume h: "check (show_int (chain_id intent)) ''0x1b227DF9c8D34CaB880774737FBf426E66Ba98Ed'' w
               = (Inr (Some report), w1) \<and> is_safe report"
    have r: "check_candidates ops check (show_int (chain_id intent)) (CANDIDATE_FARMS ops) [] w =
         ([candidate_schema ops (hd (CANDIDATE_FARMS ops)) report], w1)"
      using h by (simp add: CANDIDATE_FARMS_def)
    show "\<exists>out db'. plan_intent ops check new_id intent_id db w = (Inr out, db', w1)
             \<and> c_address (chosen out) = ''0x1b227DF9c8D34CaB880774737FBf426E66Ba98Ed''
             \<and> c_protocol (chosen out) = ''staking''
             \<and> (\<exists>p. plans db' = plans db @ [p]
                  \<and> steps (plan_json p) =
                      [Approve (dict_get kvs ''asset'' JNull) (dict_get kvs ''amount'' JNull)
                         ''0x1b227DF9c8D34CaB880774737FBf426E66Ba98Ed'',
                       Stake ''0x1b227DF9c8D34CaB880774737FBf426E66Ba98Ed''
                         (dict_get kvs ''asset'' JNull) (dict_get kvs ''amount'' JNull)])"
      unfolding p
      using h assms(2,4) r
      by (simp add: plan_for_def Let_def py_max_def candidate_schema_def build_plan_def
            CANDIDATE_FARMS_def)
  }
  {
    assume f: "all_filtered check (show_int (chain_id intent)) (CANDIDATE_FARMS ops) w"
    obtain results w' where r:
      "check_candidates ops check (show_int (chain_id intent)) (CANDIDATE_FARMS ops) [] w = (results, w')"
      by (cases "check_candidates ops check (show_int (chain_id intent)) (CANDIDATE_FARMS ops) [] w")
    have "results = []"
      using check_candidates_empty [of ops check "show_int (chain_id intent)" "CANDIDATE_FARMS ops" w]
        f r by simp
    then show "\<exists>w'. plan_intent ops check new_id intent_id db w =
                  (Inl (HttpError 500 NO_SAFE_CANDIDATES), db, w')"
      unfolding p using r by (simp add: plan_for_def)
  }
qed

text \<open>
  The claim as it stands fails: the category "LEND" contains none of the four
  substrings, and the endpoint plans on the lending whitelist.
\<close>

theorem C10_upper_case_counterexample:
  "\<not> py_in ''lend'' ''LEND'' \<and> \<not> py_in ''borrow'' ''LEND''
   \<and> \<not> py_in ''stake'' ''LEND'' \<and> \<not> py_in ''farm'' ''LEND''
   \<and> (\<exists>out db' w'.
         plan_intent exact_ops (goplus_check blank_service) ''p-1'' ''i-shout'' shouted_db quiet_world
           = (Inr out, db', w')
         \<and> c_address (chosen out) = ''0xa23bDd28F9221F275897D8A26A8eb97A341cd257''
         \<and> c_protocol (chosen out) = ''lending''
         \<and> map c_address (candidates out) = map address (CANDIDATE_LENDING exact_ops))"
proof -
  let ?lend = "''0xa23bDd28F9221F275897D8A26A8eb97A341cd257''"
  let ?report = "\<lparr>is_safe = True, safety_score = 80,
          warnings = [''Failed to perform token security check.'',
                      ''Failed to perform deployer address security check.'']\<rparr>"
  let ?w1 = "snd (run_security_check blank_service ''1043'' ?lend quiet_world)"
  have n: "\<not> py_in ''lend'' ''LEND''" "\<not> py_in ''borrow'' ''LEND''"
          "\<not> py_in ''stake'' ''LEND''" "\<not> py_in ''farm'' ''LEND''"
    by simp_all
  have i: "intents shouted_db ''i-shout'' = Some shouted_intent"
    by (simp add: shouted_db_def)
  have t: "intent_type_of (intent_json shouted_intent) = Inr ''lend''"
    by (simp add: intent_type_of_def shouted_intent_def and_then_def py_or_def dict_get_def
          py_lower_def lower_char_def)
  have c: "candidates_to_check exact_ops ''lend'' = CANDIDATE_LENDING exact_ops"
    by (simp add: candidates_to_check_def)
  have g: "goplus_check blank_service ''1043'' ?lend quiet_world = (Inr (Some ?report), ?w1)"
    using goplus_check_fst [OF quiet_report, of "''1043''" ?lend] .
  have r: "check_candidates exact_ops (goplus_check blank_service) ''1043''
             (CANDIDATE_LENDING exact_ops) [] quiet_world =
           ([candidate_schema exact_ops (hd (CANDIDATE_LENDING exact_ops)) ?report], ?w1)"
    using g by (simp add: CANDIDATE_LENDING_def)
  have a: "py_get (intent_json shouted_intent) ''asset'' JNull = Inr (JStr ''BDAG'')"
          "py_get (intent_json shouted_intent) ''amount'' JNull = Inr (JInt 5)"
    by (simp_all add: shouted_intent_def dict_get_def)
  have ch: "chain_id shouted_intent = 1043" by (simp add: shouted_intent_def)
  have "\<exists>out db' w'.
         plan_intent exact_ops (goplus_check blank_service) ''p-1'' ''i-shout'' shouted_db quiet_world
           = (Inr out, db', w')
         \<and> c_address (chosen out) = ?lend
         \<and> c_protocol (chosen out) = ''lending''
         \<and> map c_address (candidates out) = map address (CANDIDATE_LENDING exact_ops)"
    using i t c r a ch
    by (simp add: plan_intent_def plan_for_def show_1043 py_max_def Let_def
          candidate_schema_def CANDIDATE_LENDING_def)
  with n show ?thesis by (intro conjI)
qed

theorem C10_default_to_staking_witness:
  "\<exists>out db' w1. plan_intent exact_ops (goplus_check blank_service) ''p-1'' ''i-unclear'' sample_db quiet_world
                   = (Inr out, db', w1)
     \<and> c_address (chosen out) = ''0x1b227DF9c8D34CaB880774737FBf426E66Ba98Ed''
     \<and> c_protocol (chosen out) = ''staking''
     \<and> (\<exists>p. plans db' = plans sample_db @ [p]
           \<and> steps (plan_json p) =
               [Approve JNull JNull ''0x1b227DF9c8D34CaB880774737FBf426E66Ba98Ed'',
                Stake ''0x1b227DF9c8D34CaB880774737FBf426E66Ba98Ed'' JNull JNull])"
proof -
  let ?farm = "''0x1b227DF9c8D34CaB880774737FBf426E66Ba98Ed''"
  let ?report = "\<lparr>is_safe = True, safety_score = 80,
          warnings = [''Failed to perform token security check.'',
                      ''Failed to perform deployer address security check.'']\<rparr>"
  let ?w1 = "snd (run_security_check blank_service ''1043'' ?farm quiet_world)"
  have i: "intents sample_db ''i-unclear'' = Some unclear_intent"
    by (simp add: sample_db_def)
  have j: "intent_json unclear_intent = JObj []"
    by (simp add: unclear_intent_def)
  have k: "dict_get [] ''intent_type'' (JStr []) = JStr []"
    by (simp add: dict_get_def)
  have n: "\<not> py_in ''lend'' (py_lower [])" "\<not> py_in ''borrow'' (py_lower [])"
          "\<not> py_in ''stake'' (py_lower [])" "\<not> py_in ''farm'' (py_lower [])"
    by (simp_all add: py_lower_def)
  have c: "goplus_check blank_service (show_int (chain_id unclear_intent)) ?farm quiet_world
             = (Inr (Some ?report), ?w1)
           \<and> is_safe ?report"
    using goplus_check_fst [OF quiet_report, of "''1043''" ?farm]
    by (simp add: unclear_intent_def show_1043)
  from C10_default_to_staking [OF i j k n, of exact_ops "goplus_check blank_service" "''p-1''" quiet_world,
            THEN conjunct2, THEN conjunct2, THEN conjunct2, THEN conjunct1, rule_format, OF c]
  show ?thesis
    by (simp add: dict_get_def) blast
qed

end
